theory Spec2Isabelle
  imports Main "HOL-Library.Word"
begin

unbundle bit_operations_syntax

section \<open>The MCP23S17 port-expander driver (RPiMCP23S17/MCP23S17.py)\<close>

text \<open>
  The driver is a Python class whose methods mutate the handle and talk to an SPI
  transport. Each method is embedded as a function from the handle before the call to
  the pair (outcome, handle after the call); an outcome is \<open>Inl e\<close> for a raised exception
  and \<open>Inr v\<close> for a normal return. Python integers are unbounded, so every integer of
  the source is an \<open>int\<close>; \<open>&\<close>, \<open>|\<close>, \<open>~\<close>, \<open><<\<close> and \<open>>>\<close> are the two's complement
  operations \<open>AND\<close>, \<open>OR\<close>, \<open>NOT\<close>, \<open>push_bit\<close> and \<open>drop_bit\<close> on \<open>int\<close>.
  Assertions are enabled (the interpreter's default), so a failed \<open>assert\<close> raises
  \<open>AssertionError\<close>.
\<close>

subsection \<open>Exceptions\<close>

datatype error =
    NotInitialized
  | AssertionError
  | ValueError
  | IndexError
  | TypeError
  | NotImplementedError
  | SpiError

subsection \<open>Collaborators: the auxiliary pins and the SPI transport\<close>

text \<open>
  The reset and interrupt lines are objects of the external \<open>gpio\<close> package. Only what
  \<open>_setupGPIO\<close> does to them is recorded: the configured direction, the driven value and
  the edges for which a callback was registered.
\<close>

datatype pin_mode = PinUnset | PinOutput | PinInput

record Pin =
  pin_mode :: pin_mode
  pin_value :: bool
  pin_edges :: "int list"

text \<open>
  The transport is a \<open>spidev.SpiDev\<close>. Its behaviour is not part of the repository, so
  the exchange primitive is a field of the model: \<open>exchange s m frame b\<close> is what the bus in
  hidden state \<open>b\<close> and clock mode \<open>m\<close> answers to \<open>frame\<close> (\<open>None\<close> when the exchange raises)
  together with the next hidden state. \<open>sent\<close> is the history of the frames handed to
  \<open>xfer2\<close>, oldest first, and \<open>closes\<close> counts the calls of \<open>close\<close>.
\<close>

record 'b SpiDev =
  mode :: int
  bus :: 'b
  exchange :: "int \<Rightarrow> int list \<Rightarrow> 'b \<Rightarrow> int list option \<times> 'b"
  sent :: "int list list"
  closes :: nat

definition xfer2 :: "int list \<Rightarrow> 'b SpiDev \<Rightarrow> (error + int list) \<times> 'b SpiDev" where
  "xfer2 frame s =
     (case exchange s (mode s) frame (bus s) of
        (None, b) \<Rightarrow> (Inl SpiError, s\<lparr>bus := b, sent := sent s @ [frame]\<rparr>)
      | (Some response, b) \<Rightarrow> (Inr response, s\<lparr>bus := b, sent := sent s @ [frame]\<rparr>))"

definition spi_close :: "'b SpiDev \<Rightarrow> 'b SpiDev" where
  "spi_close s = s\<lparr>closes := Suc (closes s)\<rparr>"

subsection \<open>Class constants\<close>

definition PULLUP_ENABLED :: int where "PULLUP_ENABLED = 0"
definition PULLUP_DISABLED :: int where "PULLUP_DISABLED = 1"
definition DIR_INPUT :: int where "DIR_INPUT = 0"
definition DIR_OUTPUT :: int where "DIR_OUTPUT = 1"
definition LEVEL_LOW :: int where "LEVEL_LOW = 0"
definition LEVEL_HIGH :: int where "LEVEL_HIGH = 1"

definition MCP23S17_IODIRA :: int where "MCP23S17_IODIRA = 0x00"
definition MCP23S17_IODIRB :: int where "MCP23S17_IODIRB = 0x01"
definition MCP23S17_GPIOA :: int where "MCP23S17_GPIOA = 0x12"
definition MCP23S17_GPIOB :: int where "MCP23S17_GPIOB = 0x13"
definition MCP23S17_IOCON :: int where "MCP23S17_IOCON = 0x0A"
definition MCP23S17_GPPUA :: int where "MCP23S17_GPPUA = 0x0C"
definition MCP23S17_GPPUB :: int where "MCP23S17_GPPUB = 0x0D"
definition IOCON_INIT :: int where "IOCON_INIT = 0x28"
definition MCP23S17_CMD_WRITE :: int where "MCP23S17_CMD_WRITE = 0x40"
definition MCP23S17_CMD_READ :: int where "MCP23S17_CMD_READ = 0x41"

lemmas consts_defs =
  PULLUP_ENABLED_def PULLUP_DISABLED_def DIR_INPUT_def DIR_OUTPUT_def LEVEL_LOW_def
  LEVEL_HIGH_def MCP23S17_IODIRA_def MCP23S17_IODIRB_def MCP23S17_GPIOA_def
  MCP23S17_GPIOB_def MCP23S17_IOCON_def MCP23S17_GPPUA_def MCP23S17_GPPUB_def
  IOCON_INIT_def MCP23S17_CMD_WRITE_def MCP23S17_CMD_READ_def

subsection \<open>The device handle\<close>

text \<open>
  The fields are the attributes of the class; a leading underscore of the source is
  dropped (\<open>_GPIOA\<close> is \<open>GPIOA\<close>, \<open>_spi\<close> is \<open>spi\<close>, \<open>_spimode\<close> is \<open>spimode\<close>).
  \<open>_writeRegister\<close> and \<open>_readRegister\<close> read \<open>self._spimode\<close>, which \<open>__init__\<close> does not
  assign: it is taken as a field that whoever builds the handle supplies. The methods are
  run one call at a time; \<open>self.lock\<close> is a \<open>threading.Lock\<close>, whose acquisition and
  release around a transaction leave a sequential run unchanged, so it has no field.
\<close>

record 'b MCP23S17 =
  device_id :: int
  GPIOA :: int
  GPIOB :: int
  IODIRA :: int
  IODIRB :: int
  GPPUA :: int
  GPPUB :: int
  reset_pin :: "Pin option"
  int_pins :: "Pin option list"
  int_level :: int
  spi :: "'b SpiDev"
  spimode :: int
  isInitialized :: bool

type_synonym ('a, 'b) py_method = "'b MCP23S17 \<Rightarrow> (error + 'a) \<times> 'b MCP23S17"

text \<open>\<open>__init__\<close>, with the value of \<open>_spimode\<close> as one more argument.\<close>

definition init ::
  "'b SpiDev \<Rightarrow> Pin option \<Rightarrow> Pin option \<Rightarrow> Pin option \<Rightarrow> int \<Rightarrow> int \<Rightarrow> int \<Rightarrow> 'b MCP23S17"
where
  "init spi0 reset_pin0 intA_pin intB_bin int_level0 device_id0 spimode0 =
     \<lparr>device_id = device_id0,
      GPIOA = 0, GPIOB = 0, IODIRA = 0, IODIRB = 0, GPPUA = 0, GPPUB = 0,
      reset_pin = reset_pin0,
      int_pins = [intA_pin, intB_bin],
      int_level = int_level0,
      spi = spi0,
      spimode = spimode0,
      isInitialized = False\<rparr>"

subsection \<open>The locked register transaction\<close>

text \<open>The decorator \<open>lock\<close>: the initialisation check, then the wrapped method.\<close>

definition lock :: "('a, 'b) py_method \<Rightarrow> ('a, 'b) py_method" where
  "lock f d = (if \<not> isInitialized d then (Inl NotInitialized, d) else f d)"

text \<open>\<open>_setSpiMode\<close>.\<close>

definition setSpiMode :: "int \<Rightarrow> (unit, 'b) py_method" where
  "setSpiMode m d =
     (if mode (spi d) \<noteq> m then
        (case xfer2 [0] ((spi d)\<lparr>mode := m\<rparr>) of
           (Inl e, s) \<Rightarrow> (Inl e, d\<lparr>spi := s\<rparr>)
         | (Inr response, s) \<Rightarrow> (Inr (), d\<lparr>spi := s\<rparr>))
      else (Inr (), d))"

text \<open>\<open>_writeRegister\<close>.\<close>

definition writeRegister :: "int \<Rightarrow> int \<Rightarrow> (unit, 'b) py_method" where
  "writeRegister register v =
     lock (\<lambda>d.
       let command = MCP23S17_CMD_WRITE OR push_bit 1 (device_id d) in
       case setSpiMode (spimode d) d of
         (Inl e, d1) \<Rightarrow> (Inl e, d1)
       | (Inr u, d1) \<Rightarrow>
           (case xfer2 [command, register, v] (spi d1) of
              (Inl e, s) \<Rightarrow> (Inl e, d1\<lparr>spi := s\<rparr>)
            | (Inr response, s) \<Rightarrow> (Inr (), d1\<lparr>spi := s\<rparr>)))"

text \<open>\<open>_readRegister\<close>; \<open>data[2]\<close> raises \<open>IndexError\<close> on a response shorter than three.\<close>

definition readRegister :: "int \<Rightarrow> (int, 'b) py_method" where
  "readRegister register =
     lock (\<lambda>d.
       let command = MCP23S17_CMD_READ OR push_bit 1 (device_id d) in
       case setSpiMode (spimode d) d of
         (Inl e, d1) \<Rightarrow> (Inl e, d1)
       | (Inr u, d1) \<Rightarrow>
           (case xfer2 [command, register, 0] (spi d1) of
              (Inl e, s) \<Rightarrow> (Inl e, d1\<lparr>spi := s\<rparr>)
            | (Inr data, s) \<Rightarrow>
                (if 2 < length data then (Inr (data ! 2), d1\<lparr>spi := s\<rparr>)
                 else (Inl IndexError, d1\<lparr>spi := s\<rparr>))))"

text \<open>\<open>_readRegisterWord\<close> and \<open>_writeRegisterWord\<close>.\<close>

definition readRegisterWord :: "int \<Rightarrow> (int, 'b) py_method" where
  "readRegisterWord register d =
     (if \<not> isInitialized d then (Inl AssertionError, d)
      else
        (case readRegister register d of
           (Inl e, d1) \<Rightarrow> (Inl e, d1)
         | (Inr b0, d1) \<Rightarrow>
             (case readRegister (register + 1) d1 of
                (Inl e, d2) \<Rightarrow> (Inl e, d2)
              | (Inr b1, d2) \<Rightarrow> (Inr (push_bit 8 b1 OR b0), d2))))"

definition writeRegisterWord :: "int \<Rightarrow> int \<Rightarrow> (unit, 'b) py_method" where
  "writeRegisterWord register data d =
     (if \<not> isInitialized d then (Inl AssertionError, d)
      else
        (case writeRegister register (data AND 0xFF) d of
           (Inl e, d1) \<Rightarrow> (Inl e, d1)
         | (Inr u, d1) \<Rightarrow> writeRegister (register + 1) (drop_bit 8 data) d1))"

subsection \<open>Bit-level operations\<close>

text \<open>\<open>1 << noshifts\<close>: Python raises \<open>ValueError\<close> on a negative shift count.\<close>

definition one_shl :: "int \<Rightarrow> error + int" where
  "one_shl noshifts = (if noshifts < 0 then Inl ValueError else Inr (push_bit (nat noshifts) 1))"

text \<open>\<open>setPullupMode\<close>.\<close>

definition setPullupMode :: "int \<Rightarrow> int \<Rightarrow> (unit, 'b) py_method" where
  "setPullupMode pin pmode d =
     (if \<not> pin < 16 then (Inl AssertionError, d)
      else if \<not> (pmode = PULLUP_ENABLED \<or> pmode = PULLUP_DISABLED) then (Inl AssertionError, d)
      else if \<not> isInitialized d then (Inl AssertionError, d)
      else
        (let (register, data, noshifts) =
               (if pin < 8 then (MCP23S17_GPPUA, GPPUA d, pin)
                else (MCP23S17_GPPUB, GPPUB d, pin AND 0x07))
         in case one_shl noshifts of
              Inl e \<Rightarrow> (Inl e, d)
            | Inr m \<Rightarrow>
                (let data = (if pmode = PULLUP_ENABLED then data OR m else data AND NOT m)
                 in case writeRegister register data d of
                      (Inl e, d1) \<Rightarrow> (Inl e, d1)
                    | (Inr u, d1) \<Rightarrow>
                        (Inr (), if pin < 8 then d1\<lparr>GPPUA := data\<rparr> else d1\<lparr>GPPUB := data\<rparr>))))"

text \<open>\<open>setDirection\<close>.\<close>

definition setDirection :: "int \<Rightarrow> int \<Rightarrow> (unit, 'b) py_method" where
  "setDirection pin direction d =
     (if \<not> pin < 16 then (Inl AssertionError, d)
      else if \<not> (direction = DIR_INPUT \<or> direction = DIR_OUTPUT) then (Inl AssertionError, d)
      else if \<not> isInitialized d then (Inl AssertionError, d)
      else
        (let (register, data, noshifts) =
               (if pin < 8 then (MCP23S17_IODIRA, IODIRA d, pin)
                else (MCP23S17_IODIRB, IODIRB d, pin AND 0x07))
         in case one_shl noshifts of
              Inl e \<Rightarrow> (Inl e, d)
            | Inr m \<Rightarrow>
                (let data = (if direction = DIR_INPUT then data OR m else data AND NOT m)
                 in case writeRegister register data d of
                      (Inl e, d1) \<Rightarrow> (Inl e, d1)
                    | (Inr u, d1) \<Rightarrow>
                        (Inr (), if pin < 8 then d1\<lparr>IODIRA := data\<rparr> else d1\<lparr>IODIRB := data\<rparr>))))"

text \<open>
  \<open>digitalRead\<close>. The cache of the bank is overwritten as soon as the register is read,
  before the bit is extracted.
\<close>

definition digitalRead :: "int \<Rightarrow> (int, 'b) py_method" where
  "digitalRead pin d =
     (if \<not> isInitialized d then (Inl AssertionError, d)
      else if \<not> pin < 16 then (Inl AssertionError, d)
      else if pin < 8 then
        (case readRegister MCP23S17_GPIOA d of
           (Inl e, d1) \<Rightarrow> (Inl e, d1)
         | (Inr v, d1) \<Rightarrow>
             (case one_shl pin of
                Inl e \<Rightarrow> (Inl e, d1\<lparr>GPIOA := v\<rparr>)
              | Inr m \<Rightarrow>
                  (Inr (if v AND m \<noteq> 0 then LEVEL_HIGH else LEVEL_LOW), d1\<lparr>GPIOA := v\<rparr>)))
      else
        (case readRegister MCP23S17_GPIOB d of
           (Inl e, d1) \<Rightarrow> (Inl e, d1)
         | (Inr v, d1) \<Rightarrow>
             (case one_shl (pin AND 0x07) of
                Inl e \<Rightarrow> (Inl e, d1\<lparr>GPIOB := v\<rparr>)
              | Inr m \<Rightarrow>
                  (Inr (if v AND m \<noteq> 0 then LEVEL_HIGH else LEVEL_LOW), d1\<lparr>GPIOB := v\<rparr>))))"

text \<open>\<open>digitalWrite\<close>.\<close>

definition digitalWrite :: "int \<Rightarrow> int \<Rightarrow> (unit, 'b) py_method" where
  "digitalWrite pin level d =
     (if \<not> isInitialized d then (Inl AssertionError, d)
      else if \<not> pin < 16 then (Inl AssertionError, d)
      else if \<not> (level = LEVEL_HIGH \<or> level = LEVEL_LOW) then (Inl AssertionError, d)
      else
        (let (register, data, noshifts) =
               (if pin < 8 then (MCP23S17_GPIOA, GPIOA d, pin)
                else (MCP23S17_GPIOB, GPIOB d, pin AND 0x07))
         in case one_shl noshifts of
              Inl e \<Rightarrow> (Inl e, d)
            | Inr m \<Rightarrow>
                (let data = (if level = LEVEL_HIGH then data OR m else data AND NOT m)
                 in case writeRegister register data d of
                      (Inl e, d1) \<Rightarrow> (Inl e, d1)
                    | (Inr u, d1) \<Rightarrow>
                        (Inr (), if pin < 8 then d1\<lparr>GPIOA := data\<rparr> else d1\<lparr>GPIOB := data\<rparr>))))"

subsection \<open>Port-wide operations\<close>

text \<open>\<open>writeGPIO\<close>: both cached bytes are assigned first, then the word is written.\<close>

definition writeGPIO :: "int \<Rightarrow> (unit, 'b) py_method" where
  "writeGPIO data d =
     (if \<not> isInitialized d then (Inl AssertionError, d)
      else
        writeRegisterWord MCP23S17_GPIOA data
          (d\<lparr>GPIOA := data AND 0xFF, GPIOB := drop_bit 8 data\<rparr>))"

text \<open>\<open>readGPIO\<close>.\<close>

definition readGPIO :: "(int, 'b) py_method" where
  "readGPIO d =
     (if \<not> isInitialized d then (Inl AssertionError, d)
      else
        (case readRegisterWord MCP23S17_GPIOA d of
           (Inl e, d1) \<Rightarrow> (Inl e, d1)
         | (Inr data, d1) \<Rightarrow>
             (Inr data, d1\<lparr>GPIOA := data AND 0xFF, GPIOB := drop_bit 8 data\<rparr>)))"

text \<open>\<open>setInterrupt\<close>.\<close>

definition setInterrupt :: "int \<Rightarrow> int \<Rightarrow> (unit, 'b) py_method" where
  "setInterrupt pin imode d = (Inl NotImplementedError, d)"

subsection \<open>Lifecycle\<close>

text \<open>
  \<open>_setupGPIO\<close>: the reset line, when there is one, becomes an output driven high; each of
  the interrupt lines paired with a channel by \<open>zip("AB", self.int_pins)\<close> becomes an input
  with a callback registered for the edge \<open>int_level\<close>.
\<close>

definition setupGPIO :: "'b MCP23S17 \<Rightarrow> 'b MCP23S17" where
  "setupGPIO d =
     d\<lparr>reset_pin := map_option (\<lambda>p. p\<lparr>pin_mode := PinOutput, pin_value := True\<rparr>) (reset_pin d),
       int_pins :=
         map (map_option (\<lambda>p. p\<lparr>pin_mode := PinInput, pin_edges := pin_edges p @ [int_level d]\<rparr>))
             (take 2 (int_pins d))
         @ drop 2 (int_pins d)\<rparr>"

text \<open>The loop \<open>for index in range(0, 15)\<close> of \<open>open\<close>, over the indices still to do.\<close>

fun open_defaults :: "int list \<Rightarrow> (unit, 'b) py_method" where
  "open_defaults [] d = (Inr (), d)"
| "open_defaults (index # rest) d =
     (case setDirection index DIR_INPUT d of
        (Inl e, d1) \<Rightarrow> (Inl e, d1)
      | (Inr u, d1) \<Rightarrow>
          (case setPullupMode index PULLUP_ENABLED d1 of
             (Inl e, d2) \<Rightarrow> (Inl e, d2)
           | (Inr u, d2) \<Rightarrow> open_defaults rest d2))"

text \<open>\<open>open\<close>; \<open>range(0, 15)\<close> is the list \<open>[0..14]\<close>.\<close>

definition "open" :: "(unit, 'b) py_method" where
  "open d =
     (let d1 = (setupGPIO d)\<lparr>isInitialized := True\<rparr> in
      case writeRegister MCP23S17_IOCON IOCON_INIT d1 of
        (Inl e, d2) \<Rightarrow> (Inl e, d2)
      | (Inr u, d2) \<Rightarrow> open_defaults [0..14] d2)"

text \<open>\<open>close\<close>.\<close>

definition close :: "(unit, 'b) py_method" where
  "close d = (Inr (), d\<lparr>spi := spi_close (spi d), isInitialized := False\<rparr>)"

subsection \<open>The virtual pin (RPiMCP23S17/virtual_pin.py)\<close>

text \<open>
  A \<open>VirtualPin\<close> holds a reference to the device handle and a pin index. The handle is
  passed to each method as the state; the record keeps the index. The decorators
  \<open>assert_input\<close> and \<open>assert_output\<close> belong to the external \<open>gpio\<close> package: their verdict
  is an argument, \<open>None\<close> when the guard lets the call through and \<open>Some e\<close> when it raises.
\<close>

record VirtualPin =
  pin_id :: int

text \<open>\<open>MCP23S17.__getitem__\<close>.\<close>

definition getitem :: "int \<Rightarrow> VirtualPin" where
  "getitem item = \<lparr>pin_id = item\<rparr>"

text \<open>
  Python binds the positional arguments of a call to the parameters \<open>(pin, level)\<close> of
  \<open>digitalWrite\<close> before the body runs; any other number of arguments raises \<open>TypeError\<close>.
\<close>

definition call_digitalWrite :: "int list \<Rightarrow> (unit, 'b) py_method" where
  "call_digitalWrite args d =
     (case args of
        [pin, level] \<Rightarrow> digitalWrite pin level d
      | _ \<Rightarrow> (Inl TypeError, d))"

text \<open>\<open>VirtualPin.setup\<close>.\<close>

definition setup_pin :: "VirtualPin \<Rightarrow> int \<Rightarrow> (unit, 'b) py_method" where
  "setup_pin vp m d = setDirection (pin_id vp) m d"

text \<open>The getter of \<open>VirtualPin.value\<close>.\<close>

definition value_get :: "error option \<Rightarrow> VirtualPin \<Rightarrow> (int, 'b) py_method" where
  "value_get guard vp d =
     (case guard of Some e \<Rightarrow> (Inl e, d) | None \<Rightarrow> digitalRead (pin_id vp) d)"

text \<open>The setter of \<open>VirtualPin.value\<close>: its body is \<open>self.mcp.digitalWrite(value)\<close>.\<close>

definition value_set :: "error option \<Rightarrow> VirtualPin \<Rightarrow> int \<Rightarrow> (unit, 'b) py_method" where
  "value_set guard vp v d =
     (case guard of Some e \<Rightarrow> (Inl e, d) | None \<Rightarrow> call_digitalWrite [v] d)"

subsection \<open>Transports and handles used to state and to instantiate the results\<close>

text \<open>
  A transport is reliable when its exchange never raises and answers with as many bytes
  as it was handed (the exchange primitive of section 6 of the specification).
\<close>

definition reliable :: "'b SpiDev \<Rightarrow> bool" where
  "reliable s =
     (\<forall>m frame b. \<exists>response. fst (exchange s m frame b) = Some response \<and>
                               length response = length frame)"

text \<open>
  The echoing transport of the round-trip property: the hidden state is the register file
  of the chip. A three-byte frame whose command byte has the read bit set answers with the
  addressed register in its third byte; a three-byte frame with the read bit clear stores
  its third byte in the addressed register; every other frame is answered with zeros.
\<close>

definition echo_exchange :: "int \<Rightarrow> int list \<Rightarrow> (int \<Rightarrow> int) \<Rightarrow> int list option \<times> (int \<Rightarrow> int)" where
  "echo_exchange m frame regs =
     (case frame of
        [command, register, v] \<Rightarrow>
          (if bit command 0 then (Some [0, 0, regs register], regs)
           else (Some [0, 0, 0], regs(register := v)))
      | _ \<Rightarrow> (Some (map (\<lambda>b. 0) frame), regs))"

definition zero_regs :: "int \<Rightarrow> int" where
  "zero_regs register = 0"

definition echo_spi :: "(int \<Rightarrow> int) SpiDev" where
  "echo_spi = \<lparr>mode = 3, bus = zero_regs, exchange = echo_exchange, sent = [], closes = 0\<rparr>"

text \<open>
  A transport that answers \<open>n\<close> exchanges with zeros and raises from then on; the hidden
  state is the number of exchanges it will still answer.
\<close>

definition countdown_exchange :: "int \<Rightarrow> int list \<Rightarrow> nat \<Rightarrow> int list option \<times> nat" where
  "countdown_exchange m frame n =
     (if n = 0 then (None, 0) else (Some (map (\<lambda>b. 0) frame), n - 1))"

definition countdown_spi :: "nat \<Rightarrow> nat SpiDev" where
  "countdown_spi n = \<lparr>mode = 0, bus = n, exchange = countdown_exchange, sent = [], closes = 0\<rparr>"

text \<open>
  Handles as \<open>__init__\<close> builds them, without reset and interrupt lines, with device
  address 0 and clock mode 0.
\<close>

definition echo_handle :: "(int \<Rightarrow> int) MCP23S17" where
  "echo_handle = init echo_spi None None None 0 0 0"

definition countdown_handle :: "nat \<Rightarrow> nat MCP23S17" where
  "countdown_handle n = init (countdown_spi n) None None None 0 0 0"

text \<open>
  The echoing handle after \<open>open\<close>, and a handle opened on a transport that answers
  exactly the 31 exchanges of \<open>open\<close> and raises on every later one.
\<close>

definition opened_echo_handle :: "(int \<Rightarrow> int) MCP23S17" where
  "opened_echo_handle = snd (open echo_handle)"

definition exhausted_handle :: "nat MCP23S17" where
  "exhausted_handle = snd (open (countdown_handle 31))"

text \<open>The six cached register bytes of a handle.\<close>

definition cached :: "'b MCP23S17 \<Rightarrow> int \<times> int \<times> int \<times> int \<times> int \<times> int" where
  "cached d = (IODIRA d, IODIRB d, GPPUA d, GPPUB d, GPIOA d, GPIOB d)"

text \<open>
  The operations of a handle are rejected when each of them fails on its initialisation
  check and leaves the handle as it was: the pin and port operations at their
  \<open>assert self.isInitialized\<close>, the two register transactions in the decorator \<open>lock\<close>.
  They are accepted when each of them returns normally. \<open>p\<close> is the pin, \<open>v\<close> the
  direction, pull-up mode or level, \<open>r\<close> the register address and \<open>x\<close> the value written.
\<close>

definition rejected :: "'b MCP23S17 \<Rightarrow> int \<Rightarrow> int \<Rightarrow> int \<Rightarrow> int \<Rightarrow> bool" where
  "rejected d p v r x =
     (setDirection p v d = (Inl AssertionError, d) \<and>
      setPullupMode p v d = (Inl AssertionError, d) \<and>
      digitalRead p d = (Inl AssertionError, d) \<and>
      digitalWrite p v d = (Inl AssertionError, d) \<and>
      writeGPIO x d = (Inl AssertionError, d) \<and>
      readGPIO d = (Inl AssertionError, d) \<and>
      writeRegister r x d = (Inl NotInitialized, d) \<and>
      readRegister r d = (Inl NotInitialized, d))"

definition accepted :: "'b MCP23S17 \<Rightarrow> int \<Rightarrow> int \<Rightarrow> int \<Rightarrow> int \<Rightarrow> bool" where
  "accepted d p v r x =
     (fst (setDirection p v d) = Inr () \<and>
      fst (setPullupMode p v d) = Inr () \<and>
      (\<exists>level. fst (digitalRead p d) = Inr level) \<and>
      fst (digitalWrite p v d) = Inr () \<and>
      fst (writeGPIO x d) = Inr () \<and>
      (\<exists>data. fst (readGPIO d) = Inr data) \<and>
      fst (writeRegister r x d) = Inr () \<and>
      (\<exists>data. fst (readRegister r d) = Inr data))"

text \<open>
  The echoing chip as its reset leaves it: the two direction registers hold 0xFF (every
  pin an input), every other register 0. \<open>power_on_handle\<close> is a handle as \<open>__init__\<close>
  builds it on such a chip.
\<close>

definition power_on_regs :: "int \<Rightarrow> int" where
  "power_on_regs register =
     (if register = MCP23S17_IODIRA \<or> register = MCP23S17_IODIRB then 0xFF else 0)"

definition power_on_spi :: "(int \<Rightarrow> int) SpiDev" where
  "power_on_spi =
     \<lparr>mode = 0, bus = power_on_regs, exchange = echo_exchange, sent = [], closes = 0\<rparr>"

definition power_on_handle :: "(int \<Rightarrow> int) MCP23S17" where
  "power_on_handle = init power_on_spi None None None 0 0 0"

text \<open>
  The frames that the loop of \<open>open\<close> hands to the transport when every exchange succeeds:
  \<open>c\<close> is the command byte, \<open>a\<close>, \<open>b\<close> the cached direction bytes and \<open>ua\<close>, \<open>ub\<close> the
  cached pull-up bytes of banks A and B before the loop.
\<close>

fun defaults_frames :: "int \<Rightarrow> int \<Rightarrow> int \<Rightarrow> int \<Rightarrow> int \<Rightarrow> int list \<Rightarrow> int list list" where
  "defaults_frames c a b ua ub [] = []"
| "defaults_frames c a b ua ub (p # ps) =
     (if p < 8 then
        [c, MCP23S17_IODIRA, a OR push_bit (nat p) 1] #
        [c, MCP23S17_GPPUA, ua OR push_bit (nat p) 1] #
        defaults_frames c (a OR push_bit (nat p) 1) b (ua OR push_bit (nat p) 1) ub ps
      else
        [c, MCP23S17_IODIRB, b OR push_bit (nat (p AND 0x07)) 1] #
        [c, MCP23S17_GPPUB, ub OR push_bit (nat (p AND 0x07)) 1] #
        defaults_frames c a (b OR push_bit (nat (p AND 0x07)) 1) ua
          (ub OR push_bit (nat (p AND 0x07)) 1) ps)"

text \<open>
  The bits of a bank byte that the pins of a list select: pin \<open>p < 8\<close> selects bit \<open>p\<close> of
  bank A, any other pin selects bit \<open>p AND 7\<close> of bank B.
\<close>

fun bank_A_bits :: "int list \<Rightarrow> int" where
  "bank_A_bits [] = 0"
| "bank_A_bits (p # ps) = (if p < 8 then push_bit (nat p) 1 else 0) OR bank_A_bits ps"

fun bank_B_bits :: "int list \<Rightarrow> int" where
  "bank_B_bits [] = 0"
| "bank_B_bits (p # ps) = (if p < 8 then 0 else push_bit (nat (p AND 0x07)) 1) OR bank_B_bits ps"

section \<open>Properties\<close>

subsection \<open>What a register transaction changes\<close>

lemma xfer2_fields:
  "mode (snd (xfer2 f s)) = mode s"
  "exchange (snd (xfer2 f s)) = exchange s"
  "closes (snd (xfer2 f s)) = closes s"
  "sent (snd (xfer2 f s)) = sent s @ [f]"
  by (simp_all add: xfer2_def split: prod.splits option.splits)

lemma setSpiMode_frame:
  "snd (setSpiMode m d) = d\<lparr>spi := spi (snd (setSpiMode m d))\<rparr>"
  by (simp add: setSpiMode_def split: prod.splits sum.splits)

lemma writeRegister_frame:
  "snd (writeRegister r v d) = d\<lparr>spi := spi (snd (writeRegister r v d))\<rparr>"
  by (simp add: writeRegister_def lock_def setSpiMode_def Let_def split: prod.splits sum.splits)

lemma readRegister_frame:
  "snd (readRegister r d) = d\<lparr>spi := spi (snd (readRegister r d))\<rparr>"
  by (simp add: readRegister_def lock_def setSpiMode_def Let_def split: prod.splits sum.splits)

lemma writeRegister_eq_frame:
  assumes "writeRegister r v d = (res, d1)"
  shows "d1 = d\<lparr>spi := spi d1\<rparr>"
  using writeRegister_frame [of r v d] assms by simp

lemma readRegister_eq_frame:
  assumes "readRegister r d = (res, d1)"
  shows "d1 = d\<lparr>spi := spi d1\<rparr>"
  using readRegister_frame [of r d] assms by simp

lemma writeRegister_keeps:
  assumes "writeRegister r v d = (res, d1)"
  shows "GPIOA d1 = GPIOA d" "GPIOB d1 = GPIOB d" "IODIRA d1 = IODIRA d" "IODIRB d1 = IODIRB d"
    "GPPUA d1 = GPPUA d" "GPPUB d1 = GPPUB d" "isInitialized d1 = isInitialized d"
    "device_id d1 = device_id d" "spimode d1 = spimode d"
    "reset_pin d1 = reset_pin d" "int_pins d1 = int_pins d" "int_level d1 = int_level d"
  by (subst writeRegister_eq_frame [OF assms], simp)+

lemma readRegister_keeps:
  assumes "readRegister r d = (res, d1)"
  shows "GPIOA d1 = GPIOA d" "GPIOB d1 = GPIOB d" "IODIRA d1 = IODIRA d" "IODIRB d1 = IODIRB d"
    "GPPUA d1 = GPPUA d" "GPPUB d1 = GPPUB d" "isInitialized d1 = isInitialized d"
    "device_id d1 = device_id d" "spimode d1 = spimode d"
    "reset_pin d1 = reset_pin d" "int_pins d1 = int_pins d" "int_level d1 = int_level d"
  by (subst readRegister_eq_frame [OF assms], simp)+

lemma writeRegister_spi_keeps:
  assumes "writeRegister r v d = (res, d1)"
  shows "exchange (spi d1) = exchange (spi d)" "closes (spi d1) = closes (spi d)"
  using assms
  by (auto simp add: writeRegister_def lock_def setSpiMode_def Let_def xfer2_def
      split: prod.splits sum.splits option.splits if_splits)

lemma readRegister_spi_keeps:
  assumes "readRegister r d = (res, d1)"
  shows "exchange (spi d1) = exchange (spi d)" "closes (spi d1) = closes (spi d)"
  using assms
  by (auto simp add: readRegister_def lock_def setSpiMode_def Let_def xfer2_def
      split: prod.splits sum.splits option.splits if_splits)

lemma writeRegister_ok:
  assumes "writeRegister r v d = (Inr u, d1)"
  shows "isInitialized d"
    and "mode (spi d1) = spimode d"
    and "sent (spi d1) = sent (spi d) @ (if mode (spi d) \<noteq> spimode d then [[0]] else [])
         @ [[MCP23S17_CMD_WRITE OR push_bit 1 (device_id d), r, v]]"
  using assms
  by (auto simp add: writeRegister_def lock_def setSpiMode_def Let_def xfer2_def
      split: prod.splits sum.splits option.splits if_splits)


lemma setDirection_ok:
  assumes "setDirection p v d = (Inr u, d1)"
  shows "isInitialized d \<and> 0 \<le> p \<and> p < 16 \<and> (v = DIR_INPUT \<or> v = DIR_OUTPUT)"
    and "GPIOA d1 = GPIOA d \<and> GPIOB d1 = GPIOB d \<and> GPPUA d1 = GPPUA d \<and> GPPUB d1 = GPPUB d"
    and "p < 8 \<Longrightarrow>
           IODIRA d1 = (if v = DIR_INPUT then IODIRA d OR push_bit (nat p) 1
                        else IODIRA d AND NOT (push_bit (nat p) 1)) \<and>
           IODIRB d1 = IODIRB d \<and>
           last (sent (spi d1)) =
             [MCP23S17_CMD_WRITE OR push_bit 1 (device_id d), MCP23S17_IODIRA, IODIRA d1]"
    and "8 \<le> p \<Longrightarrow>
           IODIRB d1 = (if v = DIR_INPUT then IODIRB d OR push_bit (nat (p AND 0x07)) 1
                        else IODIRB d AND NOT (push_bit (nat (p AND 0x07)) 1)) \<and>
           IODIRA d1 = IODIRA d \<and>
           last (sent (spi d1)) =
             [MCP23S17_CMD_WRITE OR push_bit 1 (device_id d), MCP23S17_IODIRB, IODIRB d1]"
  using assms
  by (auto simp add: setDirection_def one_shl_def Let_def
      dest: writeRegister_keeps writeRegister_ok
      split: if_splits prod.splits sum.splits)


lemma setPullupMode_ok:
  assumes "setPullupMode p v d = (Inr u, d1)"
  shows "isInitialized d \<and> 0 \<le> p \<and> p < 16 \<and> (v = PULLUP_ENABLED \<or> v = PULLUP_DISABLED)"
    and "GPIOA d1 = GPIOA d \<and> GPIOB d1 = GPIOB d \<and> IODIRA d1 = IODIRA d \<and> IODIRB d1 = IODIRB d"
    and "p < 8 \<Longrightarrow>
           GPPUA d1 = (if v = PULLUP_ENABLED then GPPUA d OR push_bit (nat p) 1
                       else GPPUA d AND NOT (push_bit (nat p) 1)) \<and>
           GPPUB d1 = GPPUB d \<and>
           last (sent (spi d1)) =
             [MCP23S17_CMD_WRITE OR push_bit 1 (device_id d), MCP23S17_GPPUA, GPPUA d1]"
    and "8 \<le> p \<Longrightarrow>
           GPPUB d1 = (if v = PULLUP_ENABLED then GPPUB d OR push_bit (nat (p AND 0x07)) 1
                       else GPPUB d AND NOT (push_bit (nat (p AND 0x07)) 1)) \<and>
           GPPUA d1 = GPPUA d \<and>
           last (sent (spi d1)) =
             [MCP23S17_CMD_WRITE OR push_bit 1 (device_id d), MCP23S17_GPPUB, GPPUB d1]"
  using assms
  by (auto simp add: setPullupMode_def one_shl_def Let_def
      dest: writeRegister_keeps writeRegister_ok
      split: if_splits prod.splits sum.splits)

lemma digitalWrite_ok:
  assumes "digitalWrite p v d = (Inr u, d1)"
  shows "isInitialized d \<and> 0 \<le> p \<and> p < 16 \<and> (v = LEVEL_HIGH \<or> v = LEVEL_LOW)"
    and "GPPUA d1 = GPPUA d \<and> GPPUB d1 = GPPUB d \<and> IODIRA d1 = IODIRA d \<and> IODIRB d1 = IODIRB d"
    and "p < 8 \<Longrightarrow>
           GPIOA d1 = (if v = LEVEL_HIGH then GPIOA d OR push_bit (nat p) 1
                       else GPIOA d AND NOT (push_bit (nat p) 1)) \<and>
           GPIOB d1 = GPIOB d \<and>
           last (sent (spi d1)) =
             [MCP23S17_CMD_WRITE OR push_bit 1 (device_id d), MCP23S17_GPIOA, GPIOA d1]"
    and "8 \<le> p \<Longrightarrow>
           GPIOB d1 = (if v = LEVEL_HIGH then GPIOB d OR push_bit (nat (p AND 0x07)) 1
                       else GPIOB d AND NOT (push_bit (nat (p AND 0x07)) 1)) \<and>
           GPIOA d1 = GPIOA d \<and>
           last (sent (spi d1)) =
             [MCP23S17_CMD_WRITE OR push_bit 1 (device_id d), MCP23S17_GPIOB, GPIOB d1]"
  using assms
  by (auto simp add: digitalWrite_def one_shl_def Let_def
      dest: writeRegister_keeps writeRegister_ok
      split: if_splits prod.splits sum.splits)

lemma setDirection_failed:
  assumes "setDirection p v d = (Inl e, d1)"
  shows "GPIOA d1 = GPIOA d \<and> GPIOB d1 = GPIOB d \<and> IODIRA d1 = IODIRA d \<and>
         IODIRB d1 = IODIRB d \<and> GPPUA d1 = GPPUA d \<and> GPPUB d1 = GPPUB d"
  using assms
  by (auto simp add: setDirection_def one_shl_def Let_def
      dest: writeRegister_keeps split: if_splits prod.splits sum.splits)

lemma setPullupMode_failed:
  assumes "setPullupMode p v d = (Inl e, d1)"
  shows "GPIOA d1 = GPIOA d \<and> GPIOB d1 = GPIOB d \<and> IODIRA d1 = IODIRA d \<and>
         IODIRB d1 = IODIRB d \<and> GPPUA d1 = GPPUA d \<and> GPPUB d1 = GPPUB d"
  using assms
  by (auto simp add: setPullupMode_def one_shl_def Let_def
      dest: writeRegister_keeps split: if_splits prod.splits sum.splits)

lemma digitalWrite_failed:
  assumes "digitalWrite p v d = (Inl e, d1)"
  shows "GPIOA d1 = GPIOA d \<and> GPIOB d1 = GPIOB d \<and> IODIRA d1 = IODIRA d \<and>
         IODIRB d1 = IODIRB d \<and> GPPUA d1 = GPPUA d \<and> GPPUB d1 = GPPUB d"
  using assms
  by (auto simp add: digitalWrite_def one_shl_def Let_def
      dest: writeRegister_keeps split: if_splits prod.splits sum.splits)

lemma writeGPIO_cache:
  assumes "isInitialized d"
  shows "GPIOA (snd (writeGPIO x d)) = x AND 0xFF \<and> GPIOB (snd (writeGPIO x d)) = drop_bit 8 x"
proof -
  obtain r1 d1 where w1: "writeRegister MCP23S17_GPIOA (x AND 0xFF)
      (d\<lparr>GPIOA := x AND 0xFF, GPIOB := drop_bit 8 x\<rparr>) = (r1, d1)"
    by (cases "writeRegister MCP23S17_GPIOA (x AND 0xFF)
      (d\<lparr>GPIOA := x AND 0xFF, GPIOB := drop_bit 8 x\<rparr>)") 
  obtain r2 d2 where w2: "writeRegister (MCP23S17_GPIOA + 1) (drop_bit 8 x) d1 = (r2, d2)"
    by (cases "writeRegister (MCP23S17_GPIOA + 1) (drop_bit 8 x) d1")
  from writeRegister_keeps(1,2) [OF w1] writeRegister_keeps(1,2) [OF w2] w1 w2 assms
  show ?thesis
    by (simp add: writeGPIO_def writeRegisterWord_def split: sum.splits)
qed

subsection \<open>The clock mode before a transaction\<close>

text \<open>
  C8. On an initialised handle, \<open>_writeRegister\<close> and \<open>_readRegister\<close> compare the clock
  mode of the bus with the mode of the device. When they differ, the bus is switched to
  the device's mode and the one-byte frame \<open>[0]\<close> is handed to the transport first; the
  three-byte frame follows it, unless the dummy exchange itself raised. When they agree,
  the three-byte frame is the only frame handed to the transport and the mode stays.
\<close>

theorem spi_mode_switch_before_frame:
  assumes "isInitialized d"
  shows "(mode (spi d) \<noteq> spimode d \<longrightarrow>
           mode (spi (snd (writeRegister r v d))) = spimode d \<and>
           (case exchange (spi d) (spimode d) [0] (bus (spi d)) of
              (None, b) \<Rightarrow>
                fst (writeRegister r v d) = Inl SpiError \<and>
                sent (spi (snd (writeRegister r v d))) = sent (spi d) @ [[0]]
            | (Some response, b) \<Rightarrow>
                sent (spi (snd (writeRegister r v d))) =
                  sent (spi d) @ [[0], [MCP23S17_CMD_WRITE OR push_bit 1 (device_id d), r, v]]) \<and>
           mode (spi (snd (readRegister r d))) = spimode d \<and>
           (case exchange (spi d) (spimode d) [0] (bus (spi d)) of
              (None, b) \<Rightarrow>
                fst (readRegister r d) = Inl SpiError \<and>
                sent (spi (snd (readRegister r d))) = sent (spi d) @ [[0]]
            | (Some response, b) \<Rightarrow>
                sent (spi (snd (readRegister r d))) =
                  sent (spi d) @ [[0], [MCP23S17_CMD_READ OR push_bit 1 (device_id d), r, 0]]))
       \<and> (mode (spi d) = spimode d \<longrightarrow>
           mode (spi (snd (writeRegister r v d))) = spimode d \<and>
           sent (spi (snd (writeRegister r v d))) =
             sent (spi d) @ [[MCP23S17_CMD_WRITE OR push_bit 1 (device_id d), r, v]] \<and>
           mode (spi (snd (readRegister r d))) = spimode d \<and>
           sent (spi (snd (readRegister r d))) =
             sent (spi d) @ [[MCP23S17_CMD_READ OR push_bit 1 (device_id d), r, 0]])"
  using assms
  by (auto simp add: writeRegister_def readRegister_def lock_def setSpiMode_def Let_def xfer2_def
      split: prod.splits sum.splits option.splits)

theorem spi_mode_switch_before_frame_witness:
  "isInitialized (echo_handle\<lparr>isInitialized := True\<rparr>) \<and>
   mode (spi (echo_handle\<lparr>isInitialized := True\<rparr>)) \<noteq> spimode (echo_handle\<lparr>isInitialized := True\<rparr>) \<and>
   sent (spi (snd (writeRegister 0x12 5 (echo_handle\<lparr>isInitialized := True\<rparr>)))) =
     [[0], [0x40, 0x12, 5]] \<and>
   sent (spi (snd (readRegister 0x12 (echo_handle\<lparr>isInitialized := True\<rparr>)))) =
     [[0], [0x41, 0x12, 0]] \<and>
   isInitialized (countdown_handle 1\<lparr>isInitialized := True\<rparr>) \<and>
   mode (spi (countdown_handle 1\<lparr>isInitialized := True\<rparr>)) = spimode (countdown_handle 1\<lparr>isInitialized := True\<rparr>) \<and>
   sent (spi (snd (writeRegister 0x12 5 (countdown_handle 1\<lparr>isInitialized := True\<rparr>)))) =
     [[0x40, 0x12, 5]] \<and>
   sent (spi (snd (readRegister 0x12 (countdown_handle 1\<lparr>isInitialized := True\<rparr>)))) =
     [[0x41, 0x12, 0]]"
  using spi_mode_switch_before_frame [of "echo_handle\<lparr>isInitialized := True\<rparr>" 18 5]
    spi_mode_switch_before_frame [of "countdown_handle 1\<lparr>isInitialized := True\<rparr>" 18 5]
  by (simp add: echo_handle_def countdown_handle_def init_def echo_spi_def countdown_spi_def
      echo_exchange_def countdown_exchange_def consts_defs)

subsection \<open>Closing\<close>

text \<open>
  C10. \<open>close\<close> checks nothing: on every handle, opened or not, it returns normally, calls
  the transport's \<open>close\<close> once and leaves the handle uninitialised, all other fields as
  they were.
\<close>

theorem close_without_check:
  "fst (close d) = Inr () \<and> \<not> isInitialized (snd (close d)) \<and>
   closes (spi (snd (close d))) = Suc (closes (spi d)) \<and>
   snd (close d) = d\<lparr>spi := (spi d)\<lparr>closes := Suc (closes (spi d))\<rparr>, isInitialized := False\<rparr>"
  by (simp add: close_def spi_close_def)

subsection \<open>What the operations keep, and when they succeed\<close>

lemma writeRegister_keeps_snd:
  "isInitialized (snd (writeRegister r v d)) = isInitialized d"
  "exchange (spi (snd (writeRegister r v d))) = exchange (spi d)"
  using writeRegister_keeps(7) [of r v d] writeRegister_spi_keeps(1) [of r v d]
  by (cases "writeRegister r v d"; simp)+

lemma readRegister_keeps_snd:
  "isInitialized (snd (readRegister r d)) = isInitialized d"
  "exchange (spi (snd (readRegister r d))) = exchange (spi d)"
  using readRegister_keeps(7) [of r d] readRegister_spi_keeps(1) [of r d]
  by (cases "readRegister r d"; simp)+

lemma setDirection_keeps:
  "isInitialized (snd (setDirection p v d)) = isInitialized d"
  "exchange (spi (snd (setDirection p v d))) = exchange (spi d)"
  by (auto simp add: setDirection_def one_shl_def Let_def
      dest: writeRegister_keeps writeRegister_spi_keeps split: if_splits prod.splits sum.splits)

lemma setPullupMode_keeps:
  "isInitialized (snd (setPullupMode p v d)) = isInitialized d"
  "exchange (spi (snd (setPullupMode p v d))) = exchange (spi d)"
  by (auto simp add: setPullupMode_def one_shl_def Let_def
      dest: writeRegister_keeps writeRegister_spi_keeps split: if_splits prod.splits sum.splits)

lemma digitalWrite_keeps:
  "isInitialized (snd (digitalWrite p v d)) = isInitialized d"
  "exchange (spi (snd (digitalWrite p v d))) = exchange (spi d)"
  by (auto simp add: digitalWrite_def one_shl_def Let_def
      dest: writeRegister_keeps writeRegister_spi_keeps split: if_splits prod.splits sum.splits)

lemma open_defaults_keeps:
  "isInitialized (snd (open_defaults ps d)) = isInitialized d \<and>
   exchange (spi (snd (open_defaults ps d))) = exchange (spi d)"
proof (induction ps arbitrary: d)
  case Nil
  show ?case by simp
next
  case (Cons p ps)
  obtain r1 d1 where s1: "setDirection p DIR_INPUT d = (r1, d1)"
    by (cases "setDirection p DIR_INPUT d")
  obtain r2 d2 where s2: "setPullupMode p PULLUP_ENABLED d1 = (r2, d2)"
    by (cases "setPullupMode p PULLUP_ENABLED d1")
  from s1 setDirection_keeps [of p DIR_INPUT d]
  have k1: "isInitialized d1 = isInitialized d" "exchange (spi d1) = exchange (spi d)" by simp_all
  from s2 setPullupMode_keeps [of p PULLUP_ENABLED d1]
  have k2: "isInitialized d2 = isInitialized d1" "exchange (spi d2) = exchange (spi d1)" by simp_all
  show ?case
    using s1 s2 k1 k2 Cons.IH [of d2] by (simp split: sum.splits)
qed

lemma open_initialized: "isInitialized (snd (open d))"
proof -
  let ?d1 = "(setupGPIO d)\<lparr>isInitialized := True\<rparr>"
  obtain r2 d2 where w: "writeRegister MCP23S17_IOCON IOCON_INIT ?d1 = (r2, d2)"
    by (cases "writeRegister MCP23S17_IOCON IOCON_INIT ?d1")
  from writeRegister_keeps(7) [OF w] have "isInitialized d2" by simp
  with w open_defaults_keeps [of "[0..14]" d2] show ?thesis
    by (simp add: open_def Let_def split: sum.splits)
qed

lemma reliable_exchange:
  "exchange s' = exchange s \<Longrightarrow> reliable s' = reliable s"
  by (simp add: reliable_def)

lemma reliable_xfer2:
  assumes "reliable s"
  shows "\<exists>response. fst (xfer2 frame s) = Inr response \<and> length response = length frame"
proof -
  from assms obtain response where
    "fst (exchange s (mode s) frame (bus s)) = Some response" "length response = length frame"
    unfolding reliable_def by blast
  then show ?thesis
    by (cases "exchange s (mode s) frame (bus s)") (simp add: xfer2_def)
qed

lemma reliable_mode: "reliable (s\<lparr>mode := m\<rparr>) = reliable s"
  by (simp add: reliable_def)

lemma writeRegister_reliable:
  assumes "isInitialized d" "reliable (spi d)"
  shows "fst (writeRegister r v d) = Inr ()"
proof -
  have x: "\<And>frame s. exchange s = exchange (spi d) \<Longrightarrow> \<exists>response s'. xfer2 frame s = (Inr response, s') \<and> length response = length frame \<and> exchange s' = exchange (spi d)"
  proof -
    fix frame and s :: "'a SpiDev"
    assume e: "exchange s = exchange (spi d)"
    with assms(2) have "reliable s" by (simp add: reliable_def)
    from reliable_xfer2 [OF this, of frame] xfer2_fields(2) [of frame s] e
    show "\<exists>response s'. xfer2 frame s = (Inr response, s') \<and> length response = length frame \<and> exchange s' = exchange (spi d)"
      by (cases "xfer2 frame s") auto
  qed
  show ?thesis
  proof (cases "mode (spi d) \<noteq> spimode d")
    case True
    from x [of "(spi d)\<lparr>mode := spimode d\<rparr>" "[0]"]
    obtain resp s1 where a: "xfer2 [0] ((spi d)\<lparr>mode := spimode d\<rparr>) = (Inr resp, s1)"
      "exchange s1 = exchange (spi d)" by auto
    from x [OF a(2), of "[MCP23S17_CMD_WRITE OR push_bit 1 (device_id d), r, v]"]
    obtain resp2 s2 where b: "xfer2 [MCP23S17_CMD_WRITE OR push_bit 1 (device_id d), r, v] s1 = (Inr resp2, s2)"
      by auto
    from True a b assms(1) show ?thesis
      by (simp add: writeRegister_def lock_def setSpiMode_def Let_def)
  next
    case False
    from x [of "spi d" "[MCP23S17_CMD_WRITE OR push_bit 1 (device_id d), r, v]"]
    obtain resp2 s2 where b: "xfer2 [MCP23S17_CMD_WRITE OR push_bit 1 (device_id d), r, v] (spi d) = (Inr resp2, s2)"
      by auto
    from False b assms(1) show ?thesis
      by (simp add: writeRegister_def lock_def setSpiMode_def Let_def)
  qed
qed

lemma readRegister_reliable:
  assumes "isInitialized d" "reliable (spi d)"
  shows "\<exists>x. fst (readRegister r d) = Inr x"
proof -
  have x: "\<And>frame s. exchange s = exchange (spi d) \<Longrightarrow> \<exists>response s'. xfer2 frame s = (Inr response, s') \<and> length response = length frame \<and> exchange s' = exchange (spi d)"
  proof -
    fix frame and s :: "'a SpiDev"
    assume e: "exchange s = exchange (spi d)"
    with assms(2) have "reliable s" by (simp add: reliable_def)
    from reliable_xfer2 [OF this, of frame] xfer2_fields(2) [of frame s] e
    show "\<exists>response s'. xfer2 frame s = (Inr response, s') \<and> length response = length frame \<and> exchange s' = exchange (spi d)"
      by (cases "xfer2 frame s") auto
  qed
  show ?thesis
  proof (cases "mode (spi d) \<noteq> spimode d")
    case True
    from x [of "(spi d)\<lparr>mode := spimode d\<rparr>" "[0]"]
    obtain resp s1 where a: "xfer2 [0] ((spi d)\<lparr>mode := spimode d\<rparr>) = (Inr resp, s1)"
      "exchange s1 = exchange (spi d)" by auto
    from x [OF a(2), of "[MCP23S17_CMD_READ OR push_bit 1 (device_id d), r, 0]"]
    obtain resp2 s2 where b: "xfer2 [MCP23S17_CMD_READ OR push_bit 1 (device_id d), r, 0] s1 = (Inr resp2, s2)"
      "length resp2 = 3" by auto
    from True a b assms(1) show ?thesis
      by (simp add: readRegister_def lock_def setSpiMode_def Let_def)
  next
    case False
    from x [of "spi d" "[MCP23S17_CMD_READ OR push_bit 1 (device_id d), r, 0]"]
    obtain resp2 s2 where b: "xfer2 [MCP23S17_CMD_READ OR push_bit 1 (device_id d), r, 0] (spi d) = (Inr resp2, s2)"
      "length resp2 = 3" by auto
    from False b assms(1) show ?thesis
      by (simp add: readRegister_def lock_def setSpiMode_def Let_def)
  qed
qed

lemma writeRegister_reliable_eq:
  assumes "isInitialized d" "reliable (spi d)"
  shows "\<exists>d1. writeRegister r v d = (Inr (), d1)"
  using writeRegister_reliable [OF assms, of r v] by (cases "writeRegister r v d") simp

lemma readRegister_reliable_eq:
  assumes "isInitialized d" "reliable (spi d)"
  shows "\<exists>x d1. readRegister r d = (Inr x, d1)"
  using readRegister_reliable [OF assms, of r] by (cases "readRegister r d") auto

lemma setDirection_reliable:
  assumes "isInitialized d" "reliable (spi d)" "0 \<le> p" "p < 16"
    "v = DIR_INPUT \<or> v = DIR_OUTPUT"
  shows "fst (setDirection p v d) = Inr ()"
proof (cases "p < 8")
  case True
  let ?data = "if v = DIR_INPUT then IODIRA d OR push_bit (nat p) 1
               else IODIRA d AND NOT (push_bit (nat p) 1)"
  from writeRegister_reliable_eq [OF assms(1,2)]
  obtain d1 where "writeRegister MCP23S17_IODIRA ?data d = (Inr (), d1)" by blast
  with True assms show ?thesis
    by (auto simp add: setDirection_def one_shl_def Let_def split: if_splits)
next
  case False
  let ?data = "if v = DIR_INPUT then IODIRB d OR push_bit (nat (p AND 0x07)) 1
               else IODIRB d AND NOT (push_bit (nat (p AND 0x07)) 1)"
  from writeRegister_reliable_eq [OF assms(1,2)]
  obtain d1 where "writeRegister MCP23S17_IODIRB ?data d = (Inr (), d1)" by blast
  with False assms show ?thesis
    by (auto simp add: setDirection_def one_shl_def Let_def split: if_splits)
qed

lemma setPullupMode_reliable:
  assumes "isInitialized d" "reliable (spi d)" "0 \<le> p" "p < 16"
    "v = PULLUP_ENABLED \<or> v = PULLUP_DISABLED"
  shows "fst (setPullupMode p v d) = Inr ()"
proof (cases "p < 8")
  case True
  let ?data = "if v = PULLUP_ENABLED then GPPUA d OR push_bit (nat p) 1
               else GPPUA d AND NOT (push_bit (nat p) 1)"
  from writeRegister_reliable_eq [OF assms(1,2)]
  obtain d1 where "writeRegister MCP23S17_GPPUA ?data d = (Inr (), d1)" by blast
  with True assms show ?thesis
    by (auto simp add: setPullupMode_def one_shl_def Let_def split: if_splits)
next
  case False
  let ?data = "if v = PULLUP_ENABLED then GPPUB d OR push_bit (nat (p AND 0x07)) 1
               else GPPUB d AND NOT (push_bit (nat (p AND 0x07)) 1)"
  from writeRegister_reliable_eq [OF assms(1,2)]
  obtain d1 where "writeRegister MCP23S17_GPPUB ?data d = (Inr (), d1)" by blast
  with False assms show ?thesis
    by (auto simp add: setPullupMode_def one_shl_def Let_def split: if_splits)
qed

lemma digitalWrite_reliable:
  assumes "isInitialized d" "reliable (spi d)" "0 \<le> p" "p < 16"
    "v = LEVEL_HIGH \<or> v = LEVEL_LOW"
  shows "fst (digitalWrite p v d) = Inr ()"
proof (cases "p < 8")
  case True
  let ?data = "if v = LEVEL_HIGH then GPIOA d OR push_bit (nat p) 1
               else GPIOA d AND NOT (push_bit (nat p) 1)"
  from writeRegister_reliable_eq [OF assms(1,2)]
  obtain d1 where "writeRegister MCP23S17_GPIOA ?data d = (Inr (), d1)" by blast
  with True assms show ?thesis
    by (auto simp add: digitalWrite_def one_shl_def Let_def split: if_splits)
next
  case False
  let ?data = "if v = LEVEL_HIGH then GPIOB d OR push_bit (nat (p AND 0x07)) 1
               else GPIOB d AND NOT (push_bit (nat (p AND 0x07)) 1)"
  from writeRegister_reliable_eq [OF assms(1,2)]
  obtain d1 where "writeRegister MCP23S17_GPIOB ?data d = (Inr (), d1)" by blast
  with False assms show ?thesis
    by (auto simp add: digitalWrite_def one_shl_def Let_def split: if_splits)
qed

lemma and7_nonneg: "0 \<le> (p::int) AND 7"
  by simp

lemma digitalRead_reliable:
  assumes "isInitialized d" "reliable (spi d)" "0 \<le> p" "p < 16"
  shows "\<exists>x. fst (digitalRead p d) = Inr x"
proof (cases "p < 8")
  case True
  from readRegister_reliable_eq [OF assms(1,2)]
  obtain x d1 where "readRegister MCP23S17_GPIOA d = (Inr x, d1)" by blast
  with True assms show ?thesis
    by (simp add: digitalRead_def one_shl_def)
next
  case False
  from readRegister_reliable_eq [OF assms(1,2)]
  obtain x d1 where "readRegister MCP23S17_GPIOB d = (Inr x, d1)" by blast
  with False assms show ?thesis
    by (simp add: digitalRead_def one_shl_def)
qed

lemma writeRegisterWord_reliable:
  assumes "isInitialized d" "reliable (spi d)"
  shows "fst (writeRegisterWord r x d) = Inr ()"
proof -
  from writeRegister_reliable_eq [OF assms]
  obtain d1 where w1: "writeRegister r (x AND 0xFF) d = (Inr (), d1)" by blast
  from writeRegister_keeps(7) [OF w1] writeRegister_spi_keeps(1) [OF w1] assms
  have "isInitialized d1" "reliable (spi d1)" by (simp_all add: reliable_def)
  from writeRegister_reliable [OF this] w1 assms(1) show ?thesis
    by (simp add: writeRegisterWord_def)
qed

lemma readRegisterWord_reliable:
  assumes "isInitialized d" "reliable (spi d)"
  shows "\<exists>x. fst (readRegisterWord r d) = Inr x"
proof -
  from readRegister_reliable_eq [OF assms]
  obtain b0 d1 where w1: "readRegister r d = (Inr b0, d1)" by blast
  from readRegister_keeps(7) [OF w1] readRegister_spi_keeps(1) [OF w1] assms
  have "isInitialized d1" "reliable (spi d1)" by (simp_all add: reliable_def)
  from readRegister_reliable_eq [OF this]
  obtain b1 d2 where "readRegister (r + 1) d1 = (Inr b1, d2)" by blast
  with w1 assms(1) show ?thesis
    by (simp add: readRegisterWord_def)
qed

lemma writeGPIO_reliable:
  assumes "isInitialized d" "reliable (spi d)"
  shows "fst (writeGPIO x d) = Inr ()"
  using assms writeRegisterWord_reliable
    [of "d\<lparr>GPIOA := x AND 0xFF, GPIOB := drop_bit 8 x\<rparr>" MCP23S17_GPIOA x]
  by (simp add: writeGPIO_def)

lemma readGPIO_reliable:
  assumes "isInitialized d" "reliable (spi d)"
  shows "\<exists>x. fst (readGPIO d) = Inr x"
  using assms readRegisterWord_reliable [OF assms, of MCP23S17_GPIOA]
  by (cases "readRegisterWord MCP23S17_GPIOA d") (auto simp add: readGPIO_def)

lemma open_defaults_reliable:
  assumes "isInitialized d" "reliable (spi d)" "\<forall>p \<in> set ps. 0 \<le> p \<and> p < 16"
  shows "fst (open_defaults ps d) = Inr ()"
  using assms
proof (induction ps arbitrary: d)
  case Nil
  show ?case by simp
next
  case (Cons p ps)
  from Cons.prems have p: "0 \<le> p" "p < 16" by simp_all
  obtain r1 d1 where s1: "setDirection p DIR_INPUT d = (r1, d1)"
    by (cases "setDirection p DIR_INPUT d")
  from setDirection_reliable [OF Cons.prems(1,2) p, of DIR_INPUT] s1
  have r1: "r1 = Inr ()" by simp
  from s1 setDirection_keeps [of p DIR_INPUT d] Cons.prems(1,2)
  have k1: "isInitialized d1" "reliable (spi d1)" by (simp_all add: reliable_def)
  obtain r2 d2 where s2: "setPullupMode p PULLUP_ENABLED d1 = (r2, d2)"
    by (cases "setPullupMode p PULLUP_ENABLED d1")
  from setPullupMode_reliable [OF k1 p, of PULLUP_ENABLED] s2
  have r2: "r2 = Inr ()" by simp
  from s2 setPullupMode_keeps [of p PULLUP_ENABLED d1] k1
  have k2: "isInitialized d2" "reliable (spi d2)" by (simp_all add: reliable_def)
  from Cons.IH [OF k2] Cons.prems(3) s1 s2 r1 r2 show ?case by simp
qed

lemma open_reliable:
  assumes "reliable (spi d)"
  shows "fst (open d) = Inr ()"
proof -
  let ?d1 = "(setupGPIO d)\<lparr>isInitialized := True\<rparr>"
  have i: "isInitialized ?d1" "reliable (spi ?d1)"
    using assms by (simp_all add: setupGPIO_def reliable_def)
  from writeRegister_reliable_eq [OF i]
  obtain d2 where w: "writeRegister MCP23S17_IOCON IOCON_INIT ?d1 = (Inr (), d2)" by blast
  from writeRegister_keeps(7) [OF w] writeRegister_spi_keeps(1) [OF w] i
  have k: "isInitialized d2" "reliable (spi d2)" by (simp_all add: reliable_def)
  have "\<forall>p \<in> set [0..14::int]. 0 \<le> p \<and> p < 16" by simp
  from open_defaults_reliable [OF k this] w show ?thesis
    by (simp add: open_def Let_def)
qed

subsection \<open>The bring-up loop and bit arithmetic\<close>

lemma open_defaults_caches:
  assumes "open_defaults ps d = (Inr u, d')"
  shows "IODIRA d' = IODIRA d OR bank_A_bits ps \<and> IODIRB d' = IODIRB d OR bank_B_bits ps \<and>
         GPPUA d' = GPPUA d OR bank_A_bits ps \<and> GPPUB d' = GPPUB d OR bank_B_bits ps \<and>
         GPIOA d' = GPIOA d \<and> GPIOB d' = GPIOB d"
  using assms
proof (induction ps arbitrary: d)
  case Nil
  then show ?case by simp
next
  case (Cons p ps)
  from Cons.prems obtain d1 d2 where
    s1: "setDirection p DIR_INPUT d = (Inr (), d1)" and
    s2: "setPullupMode p PULLUP_ENABLED d1 = (Inr (), d2)" and
    s3: "open_defaults ps d2 = (Inr u, d')"
    by (auto split: prod.splits sum.splits)
  note a = setDirection_ok [OF s1] and b = setPullupMode_ok [OF s2] and c = Cons.IH [OF s3]
  show ?case
  proof (cases "p < 8")
    case True
    with a(2) a(3) b(2) b(3) c show ?thesis
      by (simp add: or.assoc)
  next
    case False
    then have "8 \<le> p" by simp
    with a(2) a(4) b(2) b(4) c False show ?thesis
      by (simp add: or.assoc)
  qed
qed

lemma upto_0_14: "[0..14::int] = [0, 1, 2, 3, 4, 5, 6, 7, 8, 9, 10, 11, 12, 13, 14]"
  by (simp add: upto.simps)

lemma bank_bits_range: "bank_A_bits [0..14] = 0xFF" "bank_B_bits [0..14] = 0x7F"
  by (simp_all add: upto_0_14)

lemma bit7_or_127: "bit ((x::int) OR 0x7F) 7 = bit x 7"
  by (simp add: bit_or_iff)

lemma open_caches:
  assumes "open d = (Inr u, d')"
  shows "IODIRA d' = IODIRA d OR 0xFF \<and> IODIRB d' = IODIRB d OR 0x7F \<and>
         GPPUA d' = GPPUA d OR 0xFF \<and> GPPUB d' = GPPUB d OR 0x7F \<and>
         GPIOA d' = GPIOA d \<and> GPIOB d' = GPIOB d"
proof -
  let ?d1 = "(setupGPIO d)\<lparr>isInitialized := True\<rparr>"
  from assms obtain d2 where
    w: "writeRegister MCP23S17_IOCON IOCON_INIT ?d1 = (Inr (), d2)" and
    l: "open_defaults [0..14] d2 = (Inr u, d')"
    by (auto simp add: open_def Let_def split: prod.splits sum.splits)
  from writeRegister_keeps(1-6) [OF w] open_defaults_caches [OF l] show ?thesis
    by (simp add: setupGPIO_def bank_bits_range)
qed


lemma byte_mask: "(0xFF::int) = mask 8"
  by (simp add: mask_eq_exp_minus_1)

lemma word_of_bytes: "push_bit 8 (drop_bit 8 (x::int)) OR (x AND 0xFF) = x"
  unfolding byte_mask by (rule bit_eqI) (auto simp add: bit_simps)

lemma set_bit_iff: "bit ((x::int) OR push_bit n 1) j = (j = n \<or> bit x j)"
  by (auto simp add: bit_simps)

lemma clear_bit_iff: "bit ((x::int) AND NOT (push_bit n 1)) j = (j \<noteq> n \<and> bit x j)"
  by (auto simp add: bit_simps)

subsection \<open>The defaults set by open\<close>

lemma reliable_echo: "reliable echo_spi"
  unfolding reliable_def
proof (intro allI)
  fix m :: int and frame :: "int list" and b :: "int \<Rightarrow> int"
  show "\<exists>response. fst (exchange echo_spi m frame b) = Some response \<and>
                     length response = length frame"
    by (simp add: echo_spi_def echo_exchange_def split: list.splits)
qed

lemma open_exchange: "exchange (spi (snd (open d))) = exchange (spi d)"
proof -
  let ?d1 = "(setupGPIO d)\<lparr>isInitialized := True\<rparr>"
  obtain r2 d2 where w: "writeRegister MCP23S17_IOCON IOCON_INIT ?d1 = (r2, d2)"
    by (cases "writeRegister MCP23S17_IOCON IOCON_INIT ?d1")
  from writeRegister_spi_keeps(1) [OF w] have "exchange (spi d2) = exchange (spi d)"
    by (simp add: setupGPIO_def)
  with w open_defaults_keeps [of "[0..14]" d2] show ?thesis
    by (simp add: open_def Let_def split: sum.splits)
qed

lemma open_reliable_eq:
  assumes "reliable (spi d)"
  shows "open d = (Inr (), snd (open d))"
  using open_reliable [OF assms] by (cases "open d") simp

lemma echo_handle_fields:
  "spi echo_handle = echo_spi" "\<not> isInitialized echo_handle"
  "IODIRA echo_handle = 0" "IODIRB echo_handle = 0" "GPPUA echo_handle = 0"
  "GPPUB echo_handle = 0" "GPIOA echo_handle = 0" "GPIOB echo_handle = 0"
  by (simp_all add: echo_handle_def init_def)

lemma writeRegister_outcomes:
  assumes "isInitialized d"
  shows "fst (writeRegister r v d) = Inr () \<or> fst (writeRegister r v d) = Inl SpiError"
  using assms
  by (auto simp add: writeRegister_def lock_def setSpiMode_def Let_def xfer2_def
      split: prod.splits sum.splits option.splits)

lemma readRegister_outcomes:
  assumes "isInitialized d"
  shows "(\<exists>x. fst (readRegister r d) = Inr x) \<or> fst (readRegister r d) = Inl SpiError \<or>
         fst (readRegister r d) = Inl IndexError"
  using assms
  by (auto simp add: readRegister_def lock_def setSpiMode_def Let_def xfer2_def
      split: prod.splits sum.splits option.splits)

lemma setDirection_fst:
  assumes "isInitialized d" "0 \<le> p" "p < 16" "v = DIR_INPUT \<or> v = DIR_OUTPUT"
  shows "\<exists>r x. fst (setDirection p v d) = fst (writeRegister r x d)"
proof -
  let ?r = "if p < 8 then MCP23S17_IODIRA else MCP23S17_IODIRB"
  let ?c = "if p < 8 then IODIRA d else IODIRB d"
  let ?m = "push_bit (nat (if p < 8 then p else p AND 0x07)) (1::int)"
  let ?x = "if v = DIR_INPUT then ?c OR ?m else ?c AND NOT ?m"
  have "fst (setDirection p v d) = fst (writeRegister ?r ?x d)"
    using assms
    by (cases "writeRegister ?r ?x d")
      (auto simp add: setDirection_def one_shl_def Let_def split: sum.splits if_splits)
  then show ?thesis by blast
qed

lemma setPullupMode_fst:
  assumes "isInitialized d" "0 \<le> p" "p < 16" "v = PULLUP_ENABLED \<or> v = PULLUP_DISABLED"
  shows "\<exists>r x. fst (setPullupMode p v d) = fst (writeRegister r x d)"
proof -
  let ?r = "if p < 8 then MCP23S17_GPPUA else MCP23S17_GPPUB"
  let ?c = "if p < 8 then GPPUA d else GPPUB d"
  let ?m = "push_bit (nat (if p < 8 then p else p AND 0x07)) (1::int)"
  let ?x = "if v = PULLUP_ENABLED then ?c OR ?m else ?c AND NOT ?m"
  have "fst (setPullupMode p v d) = fst (writeRegister ?r ?x d)"
    using assms
    by (cases "writeRegister ?r ?x d")
      (auto simp add: setPullupMode_def one_shl_def Let_def split: sum.splits if_splits)
  then show ?thesis by blast
qed

lemma digitalWrite_fst:
  assumes "isInitialized d" "0 \<le> p" "p < 16" "v = LEVEL_HIGH \<or> v = LEVEL_LOW"
  shows "\<exists>r x. fst (digitalWrite p v d) = fst (writeRegister r x d)"
proof -
  let ?r = "if p < 8 then MCP23S17_GPIOA else MCP23S17_GPIOB"
  let ?c = "if p < 8 then GPIOA d else GPIOB d"
  let ?m = "push_bit (nat (if p < 8 then p else p AND 0x07)) (1::int)"
  let ?x = "if v = LEVEL_HIGH then ?c OR ?m else ?c AND NOT ?m"
  have "fst (digitalWrite p v d) = fst (writeRegister ?r ?x d)"
    using assms
    by (cases "writeRegister ?r ?x d")
      (auto simp add: digitalWrite_def one_shl_def Let_def split: sum.splits if_splits)
  then show ?thesis by blast
qed

lemma digitalRead_outcomes:
  assumes "isInitialized d" "0 \<le> p" "p < 16"
  shows "(\<exists>x. fst (digitalRead p d) = Inr x) \<or> fst (digitalRead p d) = Inl SpiError \<or>
         fst (digitalRead p d) = Inl IndexError"
proof -
  let ?r = "if p < 8 then MCP23S17_GPIOA else MCP23S17_GPIOB"
  show ?thesis
    using assms readRegister_outcomes [OF assms(1), of ?r]
    by (cases "readRegister ?r d")
      (auto simp add: digitalRead_def one_shl_def split: sum.splits if_splits)
qed

lemma setDirection_outcomes:
  assumes "isInitialized d" "0 \<le> p" "p < 16" "v = DIR_INPUT \<or> v = DIR_OUTPUT"
  shows "fst (setDirection p v d) = Inr () \<or> fst (setDirection p v d) = Inl SpiError"
  using setDirection_fst [OF assms] writeRegister_outcomes [OF assms(1)] by metis

lemma setPullupMode_outcomes:
  assumes "isInitialized d" "0 \<le> p" "p < 16" "v = PULLUP_ENABLED \<or> v = PULLUP_DISABLED"
  shows "fst (setPullupMode p v d) = Inr () \<or> fst (setPullupMode p v d) = Inl SpiError"
  using setPullupMode_fst [OF assms] writeRegister_outcomes [OF assms(1)] by metis

lemma digitalWrite_outcomes:
  assumes "isInitialized d" "0 \<le> p" "p < 16" "v = LEVEL_HIGH \<or> v = LEVEL_LOW"
  shows "fst (digitalWrite p v d) = Inr () \<or> fst (digitalWrite p v d) = Inl SpiError"
  using digitalWrite_fst [OF assms] writeRegister_outcomes [OF assms(1)] by metis

subsection \<open>A failed bring-up leaves the handle initialised\<close>

text \<open>
  C9. \<open>open\<close> sets \<open>isInitialized\<close> before the control-register write and the loop over
  the pins, and nothing after that clears it: whatever \<open>open\<close> returns, also an error of a
  transaction of the bring-up, the handle is initialised afterwards. A pin operation on
  such a handle, with a pin in 0..15 and a value of its enumeration, is then not rejected
  by an initialisation check: it returns normally or fails with the error of the
  transport (for a read, also with \<open>IndexError\<close> on a short response).
\<close>

theorem open_initialized_before_bring_up:
  "isInitialized (snd (open d)) \<and>
   (0 \<le> p \<and> p < 16 \<and> (v = 0 \<or> v = 1) \<longrightarrow>
      (fst (setDirection p v (snd (open d))) = Inr () \<or>
       fst (setDirection p v (snd (open d))) = Inl SpiError) \<and>
      (fst (setPullupMode p v (snd (open d))) = Inr () \<or>
       fst (setPullupMode p v (snd (open d))) = Inl SpiError) \<and>
      (fst (digitalWrite p v (snd (open d))) = Inr () \<or>
       fst (digitalWrite p v (snd (open d))) = Inl SpiError) \<and>
      ((\<exists>x. fst (digitalRead p (snd (open d))) = Inr x) \<or>
       fst (digitalRead p (snd (open d))) = Inl SpiError \<or>
       fst (digitalRead p (snd (open d))) = Inl IndexError))"
proof -
  have i: "isInitialized (snd (open d))" by (rule open_initialized)
  show ?thesis
    using i setDirection_outcomes [OF i, of p v] setPullupMode_outcomes [OF i, of p v]
      digitalWrite_outcomes [OF i, of p v] digitalRead_outcomes [OF i, of p]
    by (simp add: consts_defs) blast
qed

theorem open_initialized_before_bring_up_witness:
  "fst (open (countdown_handle 3)) = Inl SpiError \<and>
   isInitialized (snd (open (countdown_handle 3))) \<and>
   fst (digitalWrite 3 1 (snd (open (countdown_handle 3)))) = Inl SpiError \<and>
   fst (digitalRead 3 (snd (open (countdown_handle 3)))) = Inl SpiError"
  using open_initialized_before_bring_up [of "countdown_handle 3" 3 1]
  by (simp add: open_def countdown_handle_def init_def countdown_spi_def setupGPIO_def
      countdown_exchange_def writeRegister_def readRegister_def lock_def setSpiMode_def
      xfer2_def Let_def setDirection_def setPullupMode_def digitalWrite_def digitalRead_def
      one_shl_def upto.simps consts_defs)

subsection \<open>Bank and bit of a pin\<close>

lemma and_7_of_bank_B:
  assumes "8 \<le> p" "p < 16"
  shows "(p::int) AND 7 = p - 8"
proof -
  from assms have "p = 8 \<or> p = 9 \<or> p = 10 \<or> p = 11 \<or> p = 12 \<or> p = 13 \<or> p = 14 \<or> p = 15"
    by arith
  then show ?thesis by auto
qed

text \<open>
  C1. When one of \<open>setDirection\<close>, \<open>setPullupMode\<close> and \<open>digitalWrite\<close> returns normally for
  a pin \<open>p\<close> in 0..7, the byte of bank A of its family (address 0x00, 0x0C, 0x12) with
  bit \<open>p\<close> set or cleared is the last frame written and the new cached byte of bank A, and
  the cached byte of bank B is untouched; for a pin in 8..15 the same holds with the banks
  exchanged (address 0x01, 0x0D, 0x13) and bit \<open>p AND 7 = p - 8\<close>. The three families use
  the same bank and the same bit.
\<close>

theorem bank_and_offset_of_pin:
  assumes "0 \<le> p" "p \<le> 15"
  shows
  "(setDirection p v d = (Inr u, d1) \<longrightarrow>
      (if p \<le> 7 then
         IODIRA d1 = (if v = DIR_INPUT then IODIRA d OR push_bit (nat p) 1
                      else IODIRA d AND NOT (push_bit (nat p) 1)) \<and>
         IODIRB d1 = IODIRB d \<and>
         last (sent (spi d1)) = [0x40 OR push_bit 1 (device_id d), 0x00, IODIRA d1]
       else
         IODIRB d1 = (if v = DIR_INPUT then IODIRB d OR push_bit (nat (p AND 0x07)) 1
                      else IODIRB d AND NOT (push_bit (nat (p AND 0x07)) 1)) \<and>
         IODIRA d1 = IODIRA d \<and>
         last (sent (spi d1)) = [0x40 OR push_bit 1 (device_id d), 0x01, IODIRB d1])) \<and>
   (setPullupMode p v d = (Inr u, d2) \<longrightarrow>
      (if p \<le> 7 then
         GPPUA d2 = (if v = PULLUP_ENABLED then GPPUA d OR push_bit (nat p) 1
                      else GPPUA d AND NOT (push_bit (nat p) 1)) \<and>
         GPPUB d2 = GPPUB d \<and>
         last (sent (spi d2)) = [0x40 OR push_bit 1 (device_id d), 0x0C, GPPUA d2]
       else
         GPPUB d2 = (if v = PULLUP_ENABLED then GPPUB d OR push_bit (nat (p AND 0x07)) 1
                      else GPPUB d AND NOT (push_bit (nat (p AND 0x07)) 1)) \<and>
         GPPUA d2 = GPPUA d \<and>
         last (sent (spi d2)) = [0x40 OR push_bit 1 (device_id d), 0x0D, GPPUB d2])) \<and>
   (digitalWrite p v d = (Inr u, d3) \<longrightarrow>
      (if p \<le> 7 then
         GPIOA d3 = (if v = LEVEL_HIGH then GPIOA d OR push_bit (nat p) 1
                      else GPIOA d AND NOT (push_bit (nat p) 1)) \<and>
         GPIOB d3 = GPIOB d \<and>
         last (sent (spi d3)) = [0x40 OR push_bit 1 (device_id d), 0x12, GPIOA d3]
       else
         GPIOB d3 = (if v = LEVEL_HIGH then GPIOB d OR push_bit (nat (p AND 0x07)) 1
                      else GPIOB d AND NOT (push_bit (nat (p AND 0x07)) 1)) \<and>
         GPIOA d3 = GPIOA d \<and>
         last (sent (spi d3)) = [0x40 OR push_bit 1 (device_id d), 0x13, GPIOB d3])) \<and>
   (8 \<le> p \<longrightarrow> p AND 0x07 = p - 8)"
proof -
  have a: "setDirection p v d = (Inr u, d1) \<longrightarrow>
      (if p \<le> 7 then
         IODIRA d1 = (if v = DIR_INPUT then IODIRA d OR push_bit (nat p) 1
                      else IODIRA d AND NOT (push_bit (nat p) 1)) \<and>
         IODIRB d1 = IODIRB d \<and>
         last (sent (spi d1)) = [0x40 OR push_bit 1 (device_id d), 0x00, IODIRA d1]
       else
         IODIRB d1 = (if v = DIR_INPUT then IODIRB d OR push_bit (nat (p AND 0x07)) 1
                      else IODIRB d AND NOT (push_bit (nat (p AND 0x07)) 1)) \<and>
         IODIRA d1 = IODIRA d \<and>
         last (sent (spi d1)) = [0x40 OR push_bit 1 (device_id d), 0x01, IODIRB d1])"
    using setDirection_ok(3,4) [of p v d u d1]
    by (cases "p \<le> 7") (simp_all add: consts_defs)
  have b: "setPullupMode p v d = (Inr u, d2) \<longrightarrow>
      (if p \<le> 7 then
         GPPUA d2 = (if v = PULLUP_ENABLED then GPPUA d OR push_bit (nat p) 1
                      else GPPUA d AND NOT (push_bit (nat p) 1)) \<and>
         GPPUB d2 = GPPUB d \<and>
         last (sent (spi d2)) = [0x40 OR push_bit 1 (device_id d), 0x0C, GPPUA d2]
       else
         GPPUB d2 = (if v = PULLUP_ENABLED then GPPUB d OR push_bit (nat (p AND 0x07)) 1
                      else GPPUB d AND NOT (push_bit (nat (p AND 0x07)) 1)) \<and>
         GPPUA d2 = GPPUA d \<and>
         last (sent (spi d2)) = [0x40 OR push_bit 1 (device_id d), 0x0D, GPPUB d2])"
    using setPullupMode_ok(3,4) [of p v d u d2]
    by (cases "p \<le> 7") (simp_all add: consts_defs)
  have c: "digitalWrite p v d = (Inr u, d3) \<longrightarrow>
      (if p \<le> 7 then
         GPIOA d3 = (if v = LEVEL_HIGH then GPIOA d OR push_bit (nat p) 1
                      else GPIOA d AND NOT (push_bit (nat p) 1)) \<and>
         GPIOB d3 = GPIOB d \<and>
         last (sent (spi d3)) = [0x40 OR push_bit 1 (device_id d), 0x12, GPIOA d3]
       else
         GPIOB d3 = (if v = LEVEL_HIGH then GPIOB d OR push_bit (nat (p AND 0x07)) 1
                      else GPIOB d AND NOT (push_bit (nat (p AND 0x07)) 1)) \<and>
         GPIOA d3 = GPIOA d \<and>
         last (sent (spi d3)) = [0x40 OR push_bit 1 (device_id d), 0x13, GPIOB d3])"
    using digitalWrite_ok(3,4) [of p v d u d3]
    by (cases "p \<le> 7") (simp_all add: consts_defs)
  have e: "8 \<le> p \<longrightarrow> p AND 0x07 = p - 8"
    using assms and_7_of_bank_B [of p] by simp
  from a b c e show ?thesis by blast
qed

subsection \<open>Concrete handles\<close>

lemmas run_defs =
  open_def echo_handle_def countdown_handle_def init_def echo_spi_def countdown_spi_def
  setupGPIO_def echo_exchange_def countdown_exchange_def zero_regs_def
  writeRegister_def readRegister_def writeRegisterWord_def readRegisterWord_def
  lock_def setSpiMode_def xfer2_def Let_def
  setDirection_def setPullupMode_def digitalWrite_def digitalRead_def writeGPIO_def
  readGPIO_def one_shl_def upto.simps consts_defs

lemma opened_echo_handle_fields:
  "fst (open echo_handle) = Inr ()"
  "isInitialized opened_echo_handle"
  "device_id opened_echo_handle = 0"
  "spimode opened_echo_handle = 0"
  "mode (spi opened_echo_handle) = 0"
  "exchange (spi opened_echo_handle) = echo_exchange"
  "cached opened_echo_handle = (0xFF, 0x7F, 0xFF, 0x7F, 0, 0)"
  by (simp_all add: opened_echo_handle_def cached_def run_defs)

lemma exhausted_handle_fields:
  "fst (open (countdown_handle 31)) = Inr ()"
  "isInitialized exhausted_handle"
  "device_id exhausted_handle = 0"
  "spimode exhausted_handle = 0"
  "mode (spi exhausted_handle) = 0"
  "bus (spi exhausted_handle) = 0"
  "exchange (spi exhausted_handle) = countdown_exchange"
  "cached exhausted_handle = (0xFF, 0x7F, 0xFF, 0x7F, 0, 0)"
  by (simp_all add: exhausted_handle_def cached_def run_defs)


lemma write_command_even: "\<not> bit (MCP23S17_CMD_WRITE OR push_bit 1 (x::int)) 0"
  unfolding MCP23S17_CMD_WRITE_def bit_or_iff bit_push_bit_iff by simp

lemma read_command_odd: "bit (MCP23S17_CMD_READ OR push_bit 1 (x::int)) 0"
  unfolding MCP23S17_CMD_READ_def bit_or_iff bit_push_bit_iff by simp

lemma writeRegister_echo:
  assumes "isInitialized d" "exchange (spi d) = echo_exchange"
  shows "writeRegister r v d =
    (Inr (), d\<lparr>spi := (spi d)\<lparr>mode := spimode d, bus := (bus (spi d))(r := v),
       sent := sent (spi d) @ (if mode (spi d) \<noteq> spimode d then [[0]] else [])
               @ [[MCP23S17_CMD_WRITE OR push_bit 1 (device_id d), r, v]]\<rparr>\<rparr>)"
  using assms write_command_even [of "device_id d"]
  by (simp add: writeRegister_def lock_def setSpiMode_def xfer2_def Let_def echo_exchange_def)

lemma readRegister_echo:
  assumes "isInitialized d" "exchange (spi d) = echo_exchange"
  shows "readRegister r d =
    (Inr (bus (spi d) r), d\<lparr>spi := (spi d)\<lparr>mode := spimode d,
       sent := sent (spi d) @ (if mode (spi d) \<noteq> spimode d then [[0]] else [])
               @ [[MCP23S17_CMD_READ OR push_bit 1 (device_id d), r, 0]]\<rparr>\<rparr>)"
  using assms read_command_odd [of "device_id d"]
  by (simp add: readRegister_def lock_def setSpiMode_def xfer2_def Let_def echo_exchange_def)

lemma writeRegister_exhausted:
  assumes "isInitialized d" "exchange (spi d) = countdown_exchange" "bus (spi d) = 0"
  shows "fst (writeRegister r v d) = Inl SpiError"
  using assms
  by (simp add: writeRegister_def lock_def setSpiMode_def xfer2_def Let_def
      countdown_exchange_def)


theorem bank_and_offset_of_pin_witness:
  "setDirection 11 DIR_OUTPUT opened_echo_handle =
     (Inr (), snd (setDirection 11 DIR_OUTPUT opened_echo_handle)) \<and>
   IODIRB (snd (setDirection 11 DIR_OUTPUT opened_echo_handle)) = 0x77 \<and>
   last (sent (spi (snd (setDirection 11 DIR_OUTPUT opened_echo_handle)))) = [0x40, 0x01, 0x77] \<and>
   setPullupMode 3 PULLUP_DISABLED opened_echo_handle =
     (Inr (), snd (setPullupMode 3 PULLUP_DISABLED opened_echo_handle)) \<and>
   GPPUA (snd (setPullupMode 3 PULLUP_DISABLED opened_echo_handle)) = 0xF7 \<and>
   last (sent (spi (snd (setPullupMode 3 PULLUP_DISABLED opened_echo_handle)))) = [0x40, 0x0C, 0xF7] \<and>
   digitalWrite 11 LEVEL_HIGH opened_echo_handle =
     (Inr (), snd (digitalWrite 11 LEVEL_HIGH opened_echo_handle)) \<and>
   GPIOB (snd (digitalWrite 11 LEVEL_HIGH opened_echo_handle)) = 0x08 \<and>
   last (sent (spi (snd (digitalWrite 11 LEVEL_HIGH opened_echo_handle)))) = [0x40, 0x13, 0x08]"
proof -
  note f = opened_echo_handle_fields(2-6)
  have c: "IODIRB opened_echo_handle = 0x7F" "GPPUA opened_echo_handle = 0xFF"
    "GPIOB opened_echo_handle = 0"
    using opened_echo_handle_fields(7) by (simp_all add: cached_def)
  have s1: "setDirection 11 DIR_OUTPUT opened_echo_handle =
     (Inr (), snd (setDirection 11 DIR_OUTPUT opened_echo_handle))"
    using setDirection_reliable [of opened_echo_handle 11 DIR_OUTPUT] f reliable_echo
    by (cases "setDirection 11 DIR_OUTPUT opened_echo_handle")
      (simp add: reliable_def echo_spi_def)
  have s2: "setPullupMode 3 PULLUP_DISABLED opened_echo_handle =
     (Inr (), snd (setPullupMode 3 PULLUP_DISABLED opened_echo_handle))"
    using setPullupMode_reliable [of opened_echo_handle 3 PULLUP_DISABLED] f reliable_echo
    by (cases "setPullupMode 3 PULLUP_DISABLED opened_echo_handle")
      (simp add: reliable_def echo_spi_def)
  have s3: "digitalWrite 11 LEVEL_HIGH opened_echo_handle =
     (Inr (), snd (digitalWrite 11 LEVEL_HIGH opened_echo_handle))"
    using digitalWrite_reliable [of opened_echo_handle 11 LEVEL_HIGH] f reliable_echo
    by (cases "digitalWrite 11 LEVEL_HIGH opened_echo_handle")
      (simp add: reliable_def echo_spi_def)
  from
    bank_and_offset_of_pin [of 11 DIR_OUTPUT opened_echo_handle "()"
      "snd (setDirection 11 DIR_OUTPUT opened_echo_handle)"
      "snd (setPullupMode 11 DIR_OUTPUT opened_echo_handle)"
      "snd (digitalWrite 11 LEVEL_HIGH opened_echo_handle)"]
    bank_and_offset_of_pin [of 11 LEVEL_HIGH opened_echo_handle "()"
      "snd (setDirection 11 LEVEL_HIGH opened_echo_handle)"
      "snd (setPullupMode 11 LEVEL_HIGH opened_echo_handle)"
      "snd (digitalWrite 11 LEVEL_HIGH opened_echo_handle)"]
    bank_and_offset_of_pin [of 3 PULLUP_DISABLED opened_echo_handle "()"
      "snd (setDirection 3 PULLUP_DISABLED opened_echo_handle)"
      "snd (setPullupMode 3 PULLUP_DISABLED opened_echo_handle)"
      "snd (digitalWrite 3 PULLUP_DISABLED opened_echo_handle)"]
    s1 s2 s3 f(2) c
  show ?thesis
    by (simp add: consts_defs)
qed

subsection \<open>A write of one pin changes one bit\<close>

lemma set_exp_iff: "bit ((x::int) OR 2 ^ n) j = (j = n \<or> bit x j)"
  using set_bit_iff [of x n j] by simp

lemma clear_exp_iff: "bit ((x::int) AND NOT (2 ^ n)) j = (j \<noteq> n \<and> bit x j)"
  using clear_bit_iff [of x n j] by simp

text \<open>
  C6. When \<open>digitalWrite p v\<close> returns normally, \<open>p\<close> is in 0..15 and \<open>v\<close> is one of the two
  levels. For \<open>p < 8\<close> bit \<open>p\<close> of the cached byte of bank A is set for \<open>LEVEL_HIGH\<close> and
  cleared for \<open>LEVEL_LOW\<close>, every other bit of that byte is what it was before the call,
  the cached byte of bank B is what it was, and the byte handed to the transport for
  register 0x12 is the new cached byte. For \<open>p \<ge> 8\<close> the same holds with the banks
  exchanged, bit \<open>p - 8\<close> and register 0x13. On a reliable transport the call does return
  normally.
\<close>

theorem digitalWrite_single_bit:
  "(digitalWrite p v d = (Inr u, d') \<longrightarrow>
      0 \<le> p \<and> p < 16 \<and> (v = LEVEL_HIGH \<or> v = LEVEL_LOW) \<and>
      (p < 8 \<longrightarrow>
         bit (GPIOA d') (nat p) = (v = LEVEL_HIGH) \<and>
         (\<forall>j. j \<noteq> nat p \<longrightarrow> bit (GPIOA d') j = bit (GPIOA d) j) \<and>
         GPIOB d' = GPIOB d \<and>
         last (sent (spi d')) = [0x40 OR push_bit 1 (device_id d), 0x12, GPIOA d']) \<and>
      (8 \<le> p \<longrightarrow>
         bit (GPIOB d') (nat (p - 8)) = (v = LEVEL_HIGH) \<and>
         (\<forall>j. j \<noteq> nat (p - 8) \<longrightarrow> bit (GPIOB d') j = bit (GPIOB d) j) \<and>
         GPIOA d' = GPIOA d \<and>
         last (sent (spi d')) = [0x40 OR push_bit 1 (device_id d), 0x13, GPIOB d'])) \<and>
   (isInitialized d \<and> reliable (spi d) \<and> 0 \<le> p \<and> p < 16 \<and>
    (v = LEVEL_HIGH \<or> v = LEVEL_LOW) \<longrightarrow> fst (digitalWrite p v d) = Inr ())"
proof -
  have ok: "0 \<le> p \<and> p < 16 \<and> (v = LEVEL_HIGH \<or> v = LEVEL_LOW) \<and>
      (p < 8 \<longrightarrow>
         bit (GPIOA d') (nat p) = (v = LEVEL_HIGH) \<and>
         (\<forall>j. j \<noteq> nat p \<longrightarrow> bit (GPIOA d') j = bit (GPIOA d) j) \<and>
         GPIOB d' = GPIOB d \<and>
         last (sent (spi d')) = [0x40 OR push_bit 1 (device_id d), 0x12, GPIOA d']) \<and>
      (8 \<le> p \<longrightarrow>
         bit (GPIOB d') (nat (p - 8)) = (v = LEVEL_HIGH) \<and>
         (\<forall>j. j \<noteq> nat (p - 8) \<longrightarrow> bit (GPIOB d') j = bit (GPIOB d) j) \<and>
         GPIOA d' = GPIOA d \<and>
         last (sent (spi d')) = [0x40 OR push_bit 1 (device_id d), 0x13, GPIOB d'])"
    if w: "digitalWrite p v d = (Inr u, d')"
  proof -
    note k = digitalWrite_ok [OF w]
    from k(1) have r: "0 \<le> p" "p < 16" and lv: "v = LEVEL_HIGH \<or> v = LEVEL_LOW" by simp_all
    have lo: "v \<noteq> LEVEL_HIGH \<Longrightarrow> v = LEVEL_LOW" using lv by blast
    have A: "p < 8 \<Longrightarrow>
         bit (GPIOA d') (nat p) = (v = LEVEL_HIGH) \<and>
         (\<forall>j. j \<noteq> nat p \<longrightarrow> bit (GPIOA d') j = bit (GPIOA d) j) \<and>
         GPIOB d' = GPIOB d \<and>
         last (sent (spi d')) = [0x40 OR push_bit 1 (device_id d), 0x12, GPIOA d']"
      using k(3) by (simp add: set_exp_iff clear_exp_iff consts_defs)
    have B: "8 \<le> p \<Longrightarrow>
         bit (GPIOB d') (nat (p - 8)) = (v = LEVEL_HIGH) \<and>
         (\<forall>j. j \<noteq> nat (p - 8) \<longrightarrow> bit (GPIOB d') j = bit (GPIOB d) j) \<and>
         GPIOA d' = GPIOA d \<and>
         last (sent (spi d')) = [0x40 OR push_bit 1 (device_id d), 0x13, GPIOB d']"
      using k(4) and_7_of_bank_B [OF _ r(2)]
      by (simp add: set_exp_iff clear_exp_iff consts_defs)
    from r lv A B show ?thesis by blast
  qed
  moreover have "fst (digitalWrite p v d) = Inr ()"
    if "isInitialized d \<and> reliable (spi d) \<and> 0 \<le> p \<and> p < 16 \<and>
        (v = LEVEL_HIGH \<or> v = LEVEL_LOW)"
    using that digitalWrite_reliable [of d p v] by blast
  ultimately show ?thesis by blast
qed

theorem digitalWrite_single_bit_witness:
  "digitalWrite 11 LEVEL_HIGH opened_echo_handle =
     (Inr (), snd (digitalWrite 11 LEVEL_HIGH opened_echo_handle)) \<and>
   GPIOB opened_echo_handle = 0 \<and>
   GPIOB (snd (digitalWrite 11 LEVEL_HIGH opened_echo_handle)) = 0x08 \<and>
   GPIOA (snd (digitalWrite 11 LEVEL_HIGH opened_echo_handle)) = GPIOA opened_echo_handle \<and>
   digitalWrite 2 LEVEL_LOW opened_echo_handle =
     (Inr (), snd (digitalWrite 2 LEVEL_LOW opened_echo_handle)) \<and>
   \<not> bit (GPIOA (snd (digitalWrite 2 LEVEL_LOW opened_echo_handle))) 2 \<and>
   last (sent (spi (snd (digitalWrite 2 LEVEL_LOW opened_echo_handle)))) = [0x40, 0x12, 0]"
proof -
  note f = opened_echo_handle_fields(2-6)
  have c: "GPIOA opened_echo_handle = 0" "GPIOB opened_echo_handle = 0"
    using opened_echo_handle_fields(7) by (simp_all add: cached_def)
  have rel: "reliable (spi opened_echo_handle)"
    using f(5) reliable_echo by (simp add: reliable_def echo_spi_def)
  note t1 = digitalWrite_single_bit [of 11 LEVEL_HIGH opened_echo_handle "()"
      "snd (digitalWrite 11 LEVEL_HIGH opened_echo_handle)"]
  note t2 = digitalWrite_single_bit [of 2 LEVEL_LOW opened_echo_handle "()"
      "snd (digitalWrite 2 LEVEL_LOW opened_echo_handle)"]
  have s1: "digitalWrite 11 LEVEL_HIGH opened_echo_handle =
     (Inr (), snd (digitalWrite 11 LEVEL_HIGH opened_echo_handle))"
    using t1 f(1) rel by (cases "digitalWrite 11 LEVEL_HIGH opened_echo_handle") simp
  have s2: "digitalWrite 2 LEVEL_LOW opened_echo_handle =
     (Inr (), snd (digitalWrite 2 LEVEL_LOW opened_echo_handle))"
    using t2 f(1) rel by (cases "digitalWrite 2 LEVEL_LOW opened_echo_handle") simp
  have g: "GPIOB (snd (digitalWrite 11 LEVEL_HIGH opened_echo_handle)) = 0x08"
    using digitalWrite_ok(4) [OF s1] c by (simp add: consts_defs)
  have h: "GPIOA (snd (digitalWrite 2 LEVEL_LOW opened_echo_handle)) = 0"
    using digitalWrite_ok(3) [OF s2] c by (simp add: consts_defs)
  from t1 t2 s1 s2 c g h f(2) show ?thesis
    by (simp add: consts_defs)
qed

subsection \<open>The cache when a write fails\<close>

text \<open>
  C3, as the specification states it, fails for \<open>writeGPIO\<close>: on a handle whose transport
  raises, \<open>writeGPIO 0x1234\<close> fails with the transport's error and the cached bytes of the
  data registers have changed from 0 to 0x34 and 0x12.
\<close>

theorem writeGPIO_failed_write_changes_cache:
  "isInitialized exhausted_handle \<and>
   GPIOA exhausted_handle = 0 \<and> GPIOB exhausted_handle = 0 \<and>
   fst (writeGPIO 0x1234 exhausted_handle) = Inl SpiError \<and>
   GPIOA (snd (writeGPIO 0x1234 exhausted_handle)) = 0x34 \<and>
   GPIOB (snd (writeGPIO 0x1234 exhausted_handle)) = 0x12 \<and>
   cached (snd (writeGPIO 0x1234 exhausted_handle)) \<noteq> cached exhausted_handle"
proof -
  note f = exhausted_handle_fields(2-7)
  have c: "GPIOA exhausted_handle = 0" "GPIOB exhausted_handle = 0"
    using exhausted_handle_fields(8) by (simp_all add: cached_def)
  let ?d = "exhausted_handle\<lparr>GPIOA := 0x1234 AND 0xFF, GPIOB := drop_bit 8 0x1234\<rparr>"
  have "fst (writeRegister MCP23S17_GPIOA (0x1234 AND 0xFF) ?d) = Inl SpiError"
    by (rule writeRegister_exhausted) (simp_all add: f)
  then have e: "fst (writeGPIO 0x1234 exhausted_handle) = Inl SpiError"
    using f(1)
    by (cases "writeRegister MCP23S17_GPIOA (0x1234 AND 0xFF) ?d")
      (simp add: writeGPIO_def writeRegisterWord_def)
  from writeGPIO_cache [OF f(1), of "0x1234"] c e f(1) show ?thesis
    by (simp add: cached_def)
qed

text \<open>
  C3, amended. When \<open>setDirection\<close>, \<open>setPullupMode\<close> or \<open>digitalWrite\<close> fails, whatever the
  error and so also when the transport exchange raises, the six cached register bytes are
  what they were before the call: these three assign the cache after \<open>_writeRegister\<close>
  has returned. \<open>writeGPIO\<close> assigns the two cached data bytes before it writes: on an
  initialised handle they hold the low and the high byte of the argument after the call,
  whether the write succeeded or not.
\<close>

theorem cache_after_failed_write:
  "(setDirection p v d = (Inl e, d1) \<longrightarrow> cached d1 = cached d) \<and>
   (setPullupMode p v d = (Inl e, d2) \<longrightarrow> cached d2 = cached d) \<and>
   (digitalWrite p v d = (Inl e, d3) \<longrightarrow> cached d3 = cached d) \<and>
   (isInitialized d \<longrightarrow>
      GPIOA (snd (writeGPIO x d)) = x AND 0xFF \<and> GPIOB (snd (writeGPIO x d)) = drop_bit 8 x)"
  using setDirection_failed [of p v d e d1] setPullupMode_failed [of p v d e d2]
    digitalWrite_failed [of p v d e d3] writeGPIO_cache [of d x]
  by (simp add: cached_def)

theorem cache_after_failed_write_witness:
  "setDirection 3 DIR_OUTPUT exhausted_handle =
     (Inl SpiError, snd (setDirection 3 DIR_OUTPUT exhausted_handle)) \<and>
   cached (snd (setDirection 3 DIR_OUTPUT exhausted_handle)) = (0xFF, 0x7F, 0xFF, 0x7F, 0, 0) \<and>
   setPullupMode 3 PULLUP_DISABLED exhausted_handle =
     (Inl SpiError, snd (setPullupMode 3 PULLUP_DISABLED exhausted_handle)) \<and>
   cached (snd (setPullupMode 3 PULLUP_DISABLED exhausted_handle)) = (0xFF, 0x7F, 0xFF, 0x7F, 0, 0) \<and>
   digitalWrite 3 LEVEL_HIGH exhausted_handle =
     (Inl SpiError, snd (digitalWrite 3 LEVEL_HIGH exhausted_handle)) \<and>
   cached (snd (digitalWrite 3 LEVEL_HIGH exhausted_handle)) = (0xFF, 0x7F, 0xFF, 0x7F, 0, 0) \<and>
   isInitialized exhausted_handle \<and>
   GPIOA (snd (writeGPIO 0x1234 exhausted_handle)) = 0x34 \<and>
   GPIOB (snd (writeGPIO 0x1234 exhausted_handle)) = 0x12"
proof -
  note f = exhausted_handle_fields(2-7)
  have w: "\<And>r x. fst (writeRegister r x exhausted_handle) = Inl SpiError"
    by (rule writeRegister_exhausted) (simp_all add: f)
  have s1: "fst (setDirection 3 DIR_OUTPUT exhausted_handle) = Inl SpiError"
    using setDirection_fst [of exhausted_handle 3 DIR_OUTPUT] f(1) w by auto
  have s2: "fst (setPullupMode 3 PULLUP_DISABLED exhausted_handle) = Inl SpiError"
    using setPullupMode_fst [of exhausted_handle 3 PULLUP_DISABLED] f(1) w by auto
  have s3: "fst (digitalWrite 3 LEVEL_HIGH exhausted_handle) = Inl SpiError"
    using digitalWrite_fst [of exhausted_handle 3 LEVEL_HIGH] f(1) w by auto
  have e1: "setDirection 3 DIR_OUTPUT exhausted_handle =
     (Inl SpiError, snd (setDirection 3 DIR_OUTPUT exhausted_handle))"
    using s1 by (cases "setDirection 3 DIR_OUTPUT exhausted_handle") simp
  have e2: "setPullupMode 3 PULLUP_DISABLED exhausted_handle =
     (Inl SpiError, snd (setPullupMode 3 PULLUP_DISABLED exhausted_handle))"
    using s2 by (cases "setPullupMode 3 PULLUP_DISABLED exhausted_handle") simp
  have e3: "digitalWrite 3 LEVEL_HIGH exhausted_handle =
     (Inl SpiError, snd (digitalWrite 3 LEVEL_HIGH exhausted_handle))"
    using s3 by (cases "digitalWrite 3 LEVEL_HIGH exhausted_handle") simp
  from
    cache_after_failed_write [of 3 DIR_OUTPUT exhausted_handle SpiError
      "snd (setDirection 3 DIR_OUTPUT exhausted_handle)"
      "snd (setPullupMode 3 DIR_OUTPUT exhausted_handle)"
      "snd (digitalWrite 3 DIR_OUTPUT exhausted_handle)" "0x1234"]
    cache_after_failed_write [of 3 PULLUP_DISABLED exhausted_handle SpiError
      "snd (setDirection 3 PULLUP_DISABLED exhausted_handle)"
      "snd (setPullupMode 3 PULLUP_DISABLED exhausted_handle)"
      "snd (digitalWrite 3 LEVEL_HIGH exhausted_handle)" "0x1234"]
    e1 e2 e3 f(1) exhausted_handle_fields(8)
  show ?thesis
    by (simp add: consts_defs)
qed

subsection \<open>Writing and reading back the port\<close>

lemma writeGPIO_echo:
  assumes "isInitialized d" "exchange (spi d) = echo_exchange"
  shows "fst (writeGPIO x d) = Inr ()"
    and "isInitialized (snd (writeGPIO x d))"
    and "exchange (spi (snd (writeGPIO x d))) = echo_exchange"
    and "bus (spi (snd (writeGPIO x d))) MCP23S17_GPIOA = x AND 0xFF"
    and "bus (spi (snd (writeGPIO x d))) (MCP23S17_GPIOA + 1) = drop_bit 8 x"
  using assms
  by (simp_all add: writeGPIO_def writeRegisterWord_def writeRegister_echo MCP23S17_GPIOA_def)

lemma readRegisterWord_echo:
  assumes "isInitialized d" "exchange (spi d) = echo_exchange"
  shows "fst (readRegisterWord r d) = Inr (push_bit 8 (bus (spi d) (r + 1)) OR bus (spi d) r)"
    and "GPIOA (snd (readRegisterWord r d)) = GPIOA d"
  using assms
  by (simp_all add: readRegisterWord_def readRegister_echo)

lemma readGPIO_echo:
  assumes "isInitialized d" "exchange (spi d) = echo_exchange"
    "bus (spi d) MCP23S17_GPIOA = x AND 0xFF" "bus (spi d) (MCP23S17_GPIOA + 1) = drop_bit 8 x"
  shows "fst (readGPIO d) = Inr x"
    and "GPIOA (snd (readGPIO d)) = x AND 0xFF"
    and "GPIOB (snd (readGPIO d)) = drop_bit 8 x"
proof -
  from readRegisterWord_echo(1) [OF assms(1,2), of MCP23S17_GPIOA] assms(3,4)
  have "fst (readRegisterWord MCP23S17_GPIOA d) = Inr x"
    by (simp add: word_of_bytes)
  then obtain d1 where "readRegisterWord MCP23S17_GPIOA d = (Inr x, d1)"
    by (cases "readRegisterWord MCP23S17_GPIOA d") simp
  with assms(1) show "fst (readGPIO d) = Inr x"
    and "GPIOA (snd (readGPIO d)) = x AND 0xFF"
    and "GPIOB (snd (readGPIO d)) = drop_bit 8 x"
    by (simp_all add: readGPIO_def)
qed

text \<open>
  C2. On an initialised handle whose transport echoes, \<open>writeGPIO x\<close> for a 16-bit \<open>x\<close>
  returns normally, \<open>readGPIO\<close> called next returns \<open>x\<close>, and the cached data bytes are then
  the low byte \<open>x AND 0xFF\<close> for bank A and the high byte \<open>x >> 8\<close> for bank B.
\<close>

theorem writeGPIO_readGPIO_round_trip:
  assumes "isInitialized d" "exchange (spi d) = echo_exchange" "0 \<le> x" "x < 65536"
  shows "fst (writeGPIO x d) = Inr () \<and>
         fst (readGPIO (snd (writeGPIO x d))) = Inr x \<and>
         GPIOA (snd (readGPIO (snd (writeGPIO x d)))) = x AND 0xFF \<and>
         GPIOB (snd (readGPIO (snd (writeGPIO x d)))) = drop_bit 8 x"
  using writeGPIO_echo [OF assms(1,2), of x]
    readGPIO_echo [of "snd (writeGPIO x d)" x]
  by simp

theorem writeGPIO_readGPIO_round_trip_witness:
  "isInitialized opened_echo_handle \<and>
   exchange (spi opened_echo_handle) = echo_exchange \<and>
   fst (writeGPIO 0xA55A opened_echo_handle) = Inr () \<and>
   fst (readGPIO (snd (writeGPIO 0xA55A opened_echo_handle))) = Inr 0xA55A \<and>
   GPIOA (snd (readGPIO (snd (writeGPIO 0xA55A opened_echo_handle)))) = 0x5A \<and>
   GPIOB (snd (readGPIO (snd (writeGPIO 0xA55A opened_echo_handle)))) = 0xA5"
  using writeGPIO_readGPIO_round_trip [of opened_echo_handle "0xA55A"]
    opened_echo_handle_fields(2,6)
  by simp

subsection \<open>Operations outside the initialised state\<close>

lemma uninitialized_rejected:
  assumes "\<not> isInitialized d"
  shows "writeRegister r x d = (Inl NotInitialized, d)"
    and "readRegister r d = (Inl NotInitialized, d)"
    and "writeRegisterWord r x d = (Inl AssertionError, d)"
    and "readRegisterWord r d = (Inl AssertionError, d)"
    and "digitalRead p d = (Inl AssertionError, d)"
    and "digitalWrite p v d = (Inl AssertionError, d)"
    and "writeGPIO x d = (Inl AssertionError, d)"
    and "readGPIO d = (Inl AssertionError, d)"
    and "setDirection p v d = (Inl AssertionError, d)"
    and "setPullupMode p v d = (Inl AssertionError, d)"
  using assms
  by (simp_all add: writeRegister_def readRegister_def lock_def writeRegisterWord_def
      readRegisterWord_def digitalRead_def digitalWrite_def writeGPIO_def readGPIO_def
      setDirection_def setPullupMode_def)

text \<open>
  C5, as the specification states it, fails: on a handle that was never opened,
  \<open>setDirection 0 DIR_INPUT\<close> fails at \<open>assert self.isInitialized\<close> with \<open>AssertionError\<close>,
  not with \<open>NotInitialized\<close>.
\<close>

theorem setDirection_before_open_raises_AssertionError:
  "\<not> isInitialized echo_handle \<and>
   fst (setDirection 0 DIR_INPUT echo_handle) = Inl AssertionError \<and>
   fst (setDirection 0 DIR_INPUT echo_handle) \<noteq> Inl NotInitialized"
  using uninitialized_rejected(9) [of echo_handle 0 DIR_INPUT]
  by (simp add: echo_handle_fields)


lemma uninitialized_is_rejected:
  assumes "\<not> isInitialized d"
  shows "rejected d p v r x"
  unfolding rejected_def using assms by (simp add: uninitialized_rejected)

lemma initialized_is_accepted:
  assumes "isInitialized d" "reliable (spi d)" "0 \<le> p" "p < 16" "v = 0 \<or> v = 1"
  shows "accepted d p v r x"
  unfolding accepted_def
  using assms setDirection_reliable [of d p v] setPullupMode_reliable [of d p v]
    digitalWrite_reliable [of d p v] digitalRead_reliable [of d p]
    writeGPIO_reliable [of d x] readGPIO_reliable [of d]
    writeRegister_reliable [of d r x] readRegister_reliable [of d r]
  by (auto simp add: consts_defs)

text \<open>
  C5, amended. On a handle that is not initialised every pin and port operation fails
  with \<open>AssertionError\<close> and the two register transactions fail with \<open>NotInitialized\<close>,
  without touching the handle or the bus. After \<open>open\<close>, which returns normally on a
  reliable transport, the same operations, for a pin in 0..15 and a value of the
  enumeration, return normally. After \<open>close\<close> they are rejected again in the same way.
\<close>

theorem operations_need_open:
  assumes "\<not> isInitialized d" "reliable (spi d)" "0 \<le> p" "p < 16" "v = 0 \<or> v = 1"
  shows "rejected d p v r x \<and>
         fst (open d) = Inr () \<and>
         accepted (snd (open d)) p v r x \<and>
         fst (close (snd (open d))) = Inr () \<and>
         rejected (snd (close (snd (open d)))) p v r x"
proof -
  have a: "rejected d p v r x"
    by (rule uninitialized_is_rejected) (rule assms(1))
  have b: "fst (open d) = Inr ()"
    by (rule open_reliable) (rule assms(2))
  have "reliable (spi (snd (open d)))"
    using assms(2) open_exchange [of d] by (simp add: reliable_def)
  then have c: "accepted (snd (open d)) p v r x"
    using open_initialized [of d] assms(3-5) by (simp add: initialized_is_accepted)
  have e: "fst (close (snd (open d))) = Inr ()"
    by (simp add: close_def)
  have "\<not> isInitialized (snd (close (snd (open d))))"
    by (simp add: close_def)
  then have f: "rejected (snd (close (snd (open d)))) p v r x"
    by (rule uninitialized_is_rejected)
  from a b c e f show ?thesis by blast
qed

theorem operations_need_open_witness:
  "\<not> isInitialized echo_handle \<and> reliable (spi echo_handle) \<and>
   rejected echo_handle 3 1 18 4660 \<and>
   fst (open echo_handle) = Inr () \<and>
   accepted (snd (open echo_handle)) 3 1 18 4660 \<and>
   fst (close (snd (open echo_handle))) = Inr () \<and>
   rejected (snd (close (snd (open echo_handle)))) 3 1 18 4660"
  using operations_need_open [of echo_handle 3 1 18 4660] reliable_echo
  by (simp add: echo_handle_fields)

subsection \<open>The virtual pin\<close>

lemma value_set_raises:
  "value_set None vp v d = (Inl TypeError, d)"
  by (simp add: value_set_def call_digitalWrite_def)

text \<open>
  C7. The setter of \<open>VirtualPin.value\<close> calls \<open>self.mcp.digitalWrite(value)\<close>, one argument
  short: on the opened echoing handle, setting the value of the virtual pin 3 to
  \<open>LEVEL_HIGH\<close> raises \<open>TypeError\<close> and leaves the handle, its cache and the history of the
  bus as they were, whereas \<open>digitalWrite 3 LEVEL_HIGH\<close> on the same handle returns
  normally, sets bit 3 of the cached byte of bank A and writes it to register 0x12.
\<close>

theorem virtual_pin_setter_drops_the_pin:
  "value_set None (getitem 3) LEVEL_HIGH opened_echo_handle = (Inl TypeError, opened_echo_handle) \<and>
   fst (digitalWrite (pin_id (getitem 3)) LEVEL_HIGH opened_echo_handle) = Inr () \<and>
   GPIOA opened_echo_handle = 0 \<and>
   GPIOA (snd (digitalWrite (pin_id (getitem 3)) LEVEL_HIGH opened_echo_handle)) = 0x08 \<and>
   last (sent (spi (snd (digitalWrite (pin_id (getitem 3)) LEVEL_HIGH opened_echo_handle)))) =
     [0x40, 0x12, 0x08]"
proof -
  note f = opened_echo_handle_fields(2-6)
  have c: "GPIOA opened_echo_handle = 0"
    using opened_echo_handle_fields(7) by (simp add: cached_def)
  have rel: "reliable (spi opened_echo_handle)"
    using f(5) reliable_echo by (simp add: reliable_def echo_spi_def)
  have ok: "fst (digitalWrite 3 LEVEL_HIGH opened_echo_handle) = Inr ()"
    using digitalWrite_reliable [of opened_echo_handle 3 LEVEL_HIGH] f(1) rel by simp
  then have s: "digitalWrite 3 LEVEL_HIGH opened_echo_handle =
      (Inr (), snd (digitalWrite 3 LEVEL_HIGH opened_echo_handle))"
    by (cases "digitalWrite 3 LEVEL_HIGH opened_echo_handle") simp
  from digitalWrite_ok(3) [OF s] ok c f(2) value_set_raises [of "getitem 3" LEVEL_HIGH opened_echo_handle]
  show ?thesis
    by (simp add: getitem_def consts_defs)
qed

subsection \<open>What open writes, in the cache and on the chip\<close>

lemma setDirection_via_write:
  assumes "setDirection p v d = (Inr u, d1)"
  shows "\<exists>x. writeRegister (if p < 8 then MCP23S17_IODIRA else MCP23S17_IODIRB)
               (if p < 8 then IODIRA d1 else IODIRB d1) d = (Inr (), x) \<and>
             spi d1 = spi x \<and> device_id d1 = device_id x \<and> spimode d1 = spimode x"
  using assms
  by (auto simp add: setDirection_def one_shl_def Let_def
      split: if_splits prod.splits sum.splits)

lemma setPullupMode_via_write:
  assumes "setPullupMode p v d = (Inr u, d1)"
  shows "\<exists>x. writeRegister (if p < 8 then MCP23S17_GPPUA else MCP23S17_GPPUB)
               (if p < 8 then GPPUA d1 else GPPUB d1) d = (Inr (), x) \<and>
             spi d1 = spi x \<and> device_id d1 = device_id x \<and> spimode d1 = spimode x"
  using assms
  by (auto simp add: setPullupMode_def one_shl_def Let_def
      split: if_splits prod.splits sum.splits)

lemma setDirection_sent:
  assumes "setDirection p v d = (Inr u, d1)" "mode (spi d) = spimode d"
  shows "sent (spi d1) = sent (spi d) @
           [[MCP23S17_CMD_WRITE OR push_bit 1 (device_id d),
             if p < 8 then MCP23S17_IODIRA else MCP23S17_IODIRB,
             if p < 8 then IODIRA d1 else IODIRB d1]]"
    and "mode (spi d1) = spimode d1" and "device_id d1 = device_id d"
proof -
  from setDirection_via_write [OF assms(1)] obtain x where
    w: "writeRegister (if p < 8 then MCP23S17_IODIRA else MCP23S17_IODIRB)
               (if p < 8 then IODIRA d1 else IODIRB d1) d = (Inr (), x)" and
    e: "spi d1 = spi x" "device_id d1 = device_id x" "spimode d1 = spimode x"
    by blast
  note k = writeRegister_ok [OF w] and q = writeRegister_keeps(8,9) [OF w]
  from k(3) assms(2) e(1) show "sent (spi d1) = sent (spi d) @
           [[MCP23S17_CMD_WRITE OR push_bit 1 (device_id d),
             if p < 8 then MCP23S17_IODIRA else MCP23S17_IODIRB,
             if p < 8 then IODIRA d1 else IODIRB d1]]"
    by simp
  from k(2) e q show "mode (spi d1) = spimode d1" by simp
  from e(2) q(1) show "device_id d1 = device_id d" by simp
qed

lemma setPullupMode_sent:
  assumes "setPullupMode p v d = (Inr u, d1)" "mode (spi d) = spimode d"
  shows "sent (spi d1) = sent (spi d) @
           [[MCP23S17_CMD_WRITE OR push_bit 1 (device_id d),
             if p < 8 then MCP23S17_GPPUA else MCP23S17_GPPUB,
             if p < 8 then GPPUA d1 else GPPUB d1]]"
    and "mode (spi d1) = spimode d1" and "device_id d1 = device_id d"
proof -
  from setPullupMode_via_write [OF assms(1)] obtain x where
    w: "writeRegister (if p < 8 then MCP23S17_GPPUA else MCP23S17_GPPUB)
               (if p < 8 then GPPUA d1 else GPPUB d1) d = (Inr (), x)" and
    e: "spi d1 = spi x" "device_id d1 = device_id x" "spimode d1 = spimode x"
    by blast
  note k = writeRegister_ok [OF w] and q = writeRegister_keeps(8,9) [OF w]
  from k(3) assms(2) e(1) show "sent (spi d1) = sent (spi d) @
           [[MCP23S17_CMD_WRITE OR push_bit 1 (device_id d),
             if p < 8 then MCP23S17_GPPUA else MCP23S17_GPPUB,
             if p < 8 then GPPUA d1 else GPPUB d1]]"
    by simp
  from k(2) e q show "mode (spi d1) = spimode d1" by simp
  from e(2) q(1) show "device_id d1 = device_id d" by simp
qed


lemma open_defaults_sent:
  assumes "open_defaults ps d = (Inr u, d')" "mode (spi d) = spimode d"
  shows "sent (spi d') = sent (spi d) @
           defaults_frames (MCP23S17_CMD_WRITE OR push_bit 1 (device_id d))
             (IODIRA d) (IODIRB d) (GPPUA d) (GPPUB d) ps"
  using assms
proof (induction ps arbitrary: d)
  case Nil
  then show ?case by simp
next
  case (Cons p ps)
  let ?c = "MCP23S17_CMD_WRITE OR push_bit 1 (device_id d)"
  from Cons.prems(1) obtain d1 d2 where
    s1: "setDirection p DIR_INPUT d = (Inr (), d1)" and
    s2: "setPullupMode p PULLUP_ENABLED d1 = (Inr (), d2)" and
    s3: "open_defaults ps d2 = (Inr u, d')"
    by (auto split: prod.splits sum.splits)
  note a = setDirection_sent [OF s1 Cons.prems(2)]
  note b = setPullupMode_sent [OF s2 a(2)]
  have id2: "device_id d2 = device_id d" using a(3) b(3) by simp
  from Cons.IH [OF s3 b(2)] id2
  have c: "sent (spi d') = sent (spi d2) @
      defaults_frames ?c (IODIRA d2) (IODIRB d2) (GPPUA d2) (GPPUB d2) ps"
    by simp
  have s12: "sent (spi d2) = sent (spi d) @
      [[?c, if p < 8 then MCP23S17_IODIRA else MCP23S17_IODIRB,
        if p < 8 then IODIRA d1 else IODIRB d1],
       [?c, if p < 8 then MCP23S17_GPPUA else MCP23S17_GPPUB,
        if p < 8 then GPPUA d2 else GPPUB d2]]"
    using a(1) b(1) a(3) by simp
  note ka = setDirection_ok [OF s1] and kb = setPullupMode_ok [OF s2]
  show ?case
  proof (cases "p < 8")
    case True
    from ka(2) ka(3) [OF True] kb(2) kb(3) [OF True]
    have v: "IODIRA d1 = IODIRA d OR push_bit (nat p) 1" "IODIRB d2 = IODIRB d"
      "GPPUA d2 = GPPUA d OR push_bit (nat p) 1" "GPPUB d2 = GPPUB d"
      "IODIRA d2 = IODIRA d1"
      by simp_all
    show ?thesis
      unfolding c s12 v using True by simp
  next
    case False
    then have ge: "8 \<le> p" by simp
    from ka(2) ka(4) [OF ge] kb(2) kb(4) [OF ge]
    have v: "IODIRB d1 = IODIRB d OR push_bit (nat (p AND 0x07)) 1" "IODIRA d2 = IODIRA d"
      "GPPUB d2 = GPPUB d OR push_bit (nat (p AND 0x07)) 1" "GPPUA d2 = GPPUA d"
      "IODIRB d2 = IODIRB d1"
      by simp_all
    show ?thesis
      unfolding c s12 v using False by simp
  qed
qed


lemma open_sent:
  assumes "open d = (Inr u, d')"
  shows "sent (spi d') = sent (spi d) @ (if mode (spi d) \<noteq> spimode d then [[0]] else []) @
           [MCP23S17_CMD_WRITE OR push_bit 1 (device_id d), MCP23S17_IOCON, IOCON_INIT] #
           defaults_frames (MCP23S17_CMD_WRITE OR push_bit 1 (device_id d))
             (IODIRA d) (IODIRB d) (GPPUA d) (GPPUB d) [0..14]"
proof -
  let ?d1 = "(setupGPIO d)\<lparr>isInitialized := True\<rparr>"
  from assms obtain d2 where
    w: "writeRegister MCP23S17_IOCON IOCON_INIT ?d1 = (Inr (), d2)" and
    l: "open_defaults [0..14] d2 = (Inr u, d')"
    by (auto simp add: open_def Let_def split: prod.splits sum.splits)
  note k = writeRegister_ok [OF w] and q = writeRegister_keeps [OF w]
  have f1: "spi ?d1 = spi d" "spimode ?d1 = spimode d" "device_id ?d1 = device_id d"
    "IODIRA ?d1 = IODIRA d" "IODIRB ?d1 = IODIRB d" "GPPUA ?d1 = GPPUA d" "GPPUB ?d1 = GPPUB d"
    by (simp_all add: setupGPIO_def)
  have m: "mode (spi d2) = spimode d2" using k(2) q(9) by simp
  have s2: "sent (spi d2) = sent (spi d) @ (if mode (spi d) \<noteq> spimode d then [[0]] else []) @
      [[MCP23S17_CMD_WRITE OR push_bit 1 (device_id d), MCP23S17_IOCON, IOCON_INIT]]"
    using k(3) unfolding f1 .
  have c2: "device_id d2 = device_id d" "IODIRA d2 = IODIRA d" "IODIRB d2 = IODIRB d"
    "GPPUA d2 = GPPUA d" "GPPUB d2 = GPPUB d"
    using q(3-6,8) unfolding f1 by simp_all
  show ?thesis
    using open_defaults_sent [OF l m] unfolding s2 c2 by simp
qed

lemma defaults_frames_fresh:
  "defaults_frames c 0 0 0 0 [0..14] =
     map (\<lambda>(r, v). [c, r, v])
       [(0x00, 0x01), (0x0C, 0x01), (0x00, 0x03), (0x0C, 0x03), (0x00, 0x07), (0x0C, 0x07),
        (0x00, 0x0F), (0x0C, 0x0F), (0x00, 0x1F), (0x0C, 0x1F), (0x00, 0x3F), (0x0C, 0x3F),
        (0x00, 0x7F), (0x0C, 0x7F), (0x00, 0xFF), (0x0C, 0xFF),
        (0x01, 0x01), (0x0D, 0x01), (0x01, 0x03), (0x0D, 0x03), (0x01, 0x07), (0x0D, 0x07),
        (0x01, 0x0F), (0x0D, 0x0F), (0x01, 0x1F), (0x0D, 0x1F), (0x01, 0x3F), (0x0D, 0x3F),
        (0x01, 0x7F), (0x0D, 0x7F)]"
  by (simp add: upto_0_14 consts_defs)

lemma open_echo_chip:
  assumes "exchange (spi d) = echo_exchange"
  shows "bus (spi (snd (open d))) MCP23S17_IODIRA = IODIRA d OR 0xFF"
    and "bus (spi (snd (open d))) MCP23S17_IODIRB = IODIRB d OR 0x7F"
    and "bus (spi (snd (open d))) MCP23S17_GPPUA = GPPUA d OR 0xFF"
    and "bus (spi (snd (open d))) MCP23S17_GPPUB = GPPUB d OR 0x7F"
  using assms
  by (simp_all add: open_def Let_def setupGPIO_def upto.simps setDirection_def
      setPullupMode_def one_shl_def writeRegister_echo consts_defs or.assoc)


lemma reliable_echo_exchange:
  assumes "exchange s = echo_exchange"
  shows "reliable s"
  unfolding reliable_def
proof (intro allI)
  fix m :: int and frame :: "int list" and b :: "int \<Rightarrow> int"
  show "\<exists>response. fst (exchange s m frame b) = Some response \<and>
                     length response = length frame"
    by (simp add: assms echo_exchange_def split: list.splits)
qed

lemma power_on_handle_fields:
  "exchange (spi power_on_handle) = echo_exchange"
  "mode (spi power_on_handle) = spimode power_on_handle"
  "sent (spi power_on_handle) = []"
  "device_id power_on_handle = 0"
  "IODIRA power_on_handle = 0" "IODIRB power_on_handle = 0"
  "GPPUA power_on_handle = 0" "GPPUB power_on_handle = 0"
  "bus (spi power_on_handle) MCP23S17_IODIRB = 0xFF"
  by (simp_all add: power_on_handle_def power_on_spi_def power_on_regs_def init_def)

text \<open>
  C4, as the specification states it, fails on the chip. A handle as \<open>__init__\<close> builds it
  caches 0 for every register, while the direction register of bank B of the chip holds
  0xFF after reset. \<open>open\<close> returns normally and has written the cached bit 7 with every
  byte for bank B: the register of the chip holds 0x7F afterwards, so the direction bit of
  pin 15 has gone from 1 to 0.
\<close>

theorem open_overwrites_pin_15_on_the_chip:
  "bus (spi power_on_handle) MCP23S17_IODIRB = 0xFF \<and>
   bit (bus (spi power_on_handle) MCP23S17_IODIRB) 7 \<and>
   fst (open power_on_handle) = Inr () \<and>
   bus (spi (snd (open power_on_handle))) MCP23S17_IODIRB = 0x7F \<and>
   \<not> bit (bus (spi (snd (open power_on_handle))) MCP23S17_IODIRB) 7"
proof -
  note f = power_on_handle_fields
  have "reliable (spi power_on_handle)"
    by (rule reliable_echo_exchange) (rule f(1))
  then have "fst (open power_on_handle) = Inr ()"
    by (rule open_reliable)
  with open_echo_chip(2) [OF f(1)] f(6) f(9) show ?thesis
    by simp
qed

text \<open>
  C4, amended. When \<open>open\<close> returns normally, every bit of the cached direction and
  pull-up bytes of bank A is set (pins 0 to 7: input, pull-up enabled), bits 0 to 6 of the
  cached direction and pull-up bytes of bank B are set (pins 8 to 14), and bit 7 of the two
  cached bank B bytes (pin 15) is what it was before \<open>open\<close>. On a handle that caches 0 for
  the four bytes, as \<open>__init__\<close> leaves it, the frames handed to the transport are, after the
  dummy frame of a mode switch, the write of 0x28 to the control register and then, pin
  by pin from 0 to 14, the direction byte and the pull-up byte of the pin's bank with the
  bits of the pins done so far; no frame is written for pin 15. On a reliable transport
  \<open>open\<close> does return normally. On the echoing chip the four registers then hold the new
  cached bytes: the chip's bit of pin 15 in the two bank B registers is the cached bit,
  whatever the chip held there before.
\<close>

theorem open_configures_pins_0_to_14:
  "(open d = (Inr u, d') \<longrightarrow>
      IODIRA d' = IODIRA d OR 0xFF \<and> GPPUA d' = GPPUA d OR 0xFF \<and>
      IODIRB d' = IODIRB d OR 0x7F \<and> GPPUB d' = GPPUB d OR 0x7F \<and>
      bit (IODIRB d') 7 = bit (IODIRB d) 7 \<and> bit (GPPUB d') 7 = bit (GPPUB d) 7 \<and>
      (IODIRA d = 0 \<and> IODIRB d = 0 \<and> GPPUA d = 0 \<and> GPPUB d = 0 \<longrightarrow>
       sent (spi d') =
         sent (spi d) @ (if mode (spi d) \<noteq> spimode d then [[0]] else []) @
         map (\<lambda>(r, v). [0x40 OR push_bit 1 (device_id d), r, v])
           [(0x0A, 0x28),
            (0x00, 0x01), (0x0C, 0x01), (0x00, 0x03), (0x0C, 0x03), (0x00, 0x07), (0x0C, 0x07),
            (0x00, 0x0F), (0x0C, 0x0F), (0x00, 0x1F), (0x0C, 0x1F), (0x00, 0x3F), (0x0C, 0x3F),
            (0x00, 0x7F), (0x0C, 0x7F), (0x00, 0xFF), (0x0C, 0xFF),
            (0x01, 0x01), (0x0D, 0x01), (0x01, 0x03), (0x0D, 0x03), (0x01, 0x07), (0x0D, 0x07),
            (0x01, 0x0F), (0x0D, 0x0F), (0x01, 0x1F), (0x0D, 0x1F), (0x01, 0x3F), (0x0D, 0x3F),
            (0x01, 0x7F), (0x0D, 0x7F)])) \<and>
   (reliable (spi d) \<longrightarrow> fst (open d) = Inr ()) \<and>
   (exchange (spi d) = echo_exchange \<longrightarrow>
      fst (open d) = Inr () \<and>
      bus (spi (snd (open d))) 0x00 = IODIRA d OR 0xFF \<and>
      bus (spi (snd (open d))) 0x0C = GPPUA d OR 0xFF \<and>
      bus (spi (snd (open d))) 0x01 = IODIRB d OR 0x7F \<and>
      bus (spi (snd (open d))) 0x0D = GPPUB d OR 0x7F \<and>
      bit (bus (spi (snd (open d))) 0x01) 7 = bit (IODIRB d) 7 \<and>
      bit (bus (spi (snd (open d))) 0x0D) 7 = bit (GPPUB d) 7)"
proof -
  have cache: "IODIRA d' = IODIRA d OR 0xFF \<and> GPPUA d' = GPPUA d OR 0xFF \<and>
      IODIRB d' = IODIRB d OR 0x7F \<and> GPPUB d' = GPPUB d OR 0x7F \<and>
      bit (IODIRB d') 7 = bit (IODIRB d) 7 \<and> bit (GPPUB d') 7 = bit (GPPUB d) 7"
    if "open d = (Inr u, d')"
    using open_caches [OF that] by (simp add: bit7_or_127)
  have frames: "sent (spi d') =
         sent (spi d) @ (if mode (spi d) \<noteq> spimode d then [[0]] else []) @
         map (\<lambda>(r, v). [0x40 OR push_bit 1 (device_id d), r, v])
           [(0x0A, 0x28),
            (0x00, 0x01), (0x0C, 0x01), (0x00, 0x03), (0x0C, 0x03), (0x00, 0x07), (0x0C, 0x07),
            (0x00, 0x0F), (0x0C, 0x0F), (0x00, 0x1F), (0x0C, 0x1F), (0x00, 0x3F), (0x0C, 0x3F),
            (0x00, 0x7F), (0x0C, 0x7F), (0x00, 0xFF), (0x0C, 0xFF),
            (0x01, 0x01), (0x0D, 0x01), (0x01, 0x03), (0x0D, 0x03), (0x01, 0x07), (0x0D, 0x07),
            (0x01, 0x0F), (0x0D, 0x0F), (0x01, 0x1F), (0x0D, 0x1F), (0x01, 0x3F), (0x0D, 0x3F),
            (0x01, 0x7F), (0x0D, 0x7F)]"
    if "open d = (Inr u, d')" "IODIRA d = 0 \<and> IODIRB d = 0 \<and> GPPUA d = 0 \<and> GPPUB d = 0"
    using open_sent [OF that(1)] that(2)
    by (simp add: defaults_frames_fresh) (simp add: consts_defs)
  have rel: "fst (open d) = Inr ()" if "reliable (spi d)"
    using that by (rule open_reliable)
  have chip: "fst (open d) = Inr () \<and>
      bus (spi (snd (open d))) 0x00 = IODIRA d OR 0xFF \<and>
      bus (spi (snd (open d))) 0x0C = GPPUA d OR 0xFF \<and>
      bus (spi (snd (open d))) 0x01 = IODIRB d OR 0x7F \<and>
      bus (spi (snd (open d))) 0x0D = GPPUB d OR 0x7F \<and>
      bit (bus (spi (snd (open d))) 0x01) 7 = bit (IODIRB d) 7 \<and>
      bit (bus (spi (snd (open d))) 0x0D) 7 = bit (GPPUB d) 7"
    if e: "exchange (spi d) = echo_exchange"
    using open_echo_chip [OF e] open_reliable [OF reliable_echo_exchange [OF e]]
    by (simp add: consts_defs bit7_or_127)
  from cache frames rel chip show ?thesis by blast
qed

theorem open_configures_pins_0_to_14_witness:
  "open power_on_handle = (Inr (), snd (open power_on_handle)) \<and>
   IODIRA (snd (open power_on_handle)) = 0xFF \<and> GPPUA (snd (open power_on_handle)) = 0xFF \<and>
   IODIRB (snd (open power_on_handle)) = 0x7F \<and> GPPUB (snd (open power_on_handle)) = 0x7F \<and>
   \<not> bit (IODIRB (snd (open power_on_handle))) 7 \<and>
   \<not> bit (GPPUB (snd (open power_on_handle))) 7 \<and>
   sent (spi (snd (open power_on_handle))) =
     map (\<lambda>(r, v). [0x40, r, v])
           [(0x0A, 0x28),
            (0x00, 0x01), (0x0C, 0x01), (0x00, 0x03), (0x0C, 0x03), (0x00, 0x07), (0x0C, 0x07),
            (0x00, 0x0F), (0x0C, 0x0F), (0x00, 0x1F), (0x0C, 0x1F), (0x00, 0x3F), (0x0C, 0x3F),
            (0x00, 0x7F), (0x0C, 0x7F), (0x00, 0xFF), (0x0C, 0xFF),
            (0x01, 0x01), (0x0D, 0x01), (0x01, 0x03), (0x0D, 0x03), (0x01, 0x07), (0x0D, 0x07),
            (0x01, 0x0F), (0x0D, 0x0F), (0x01, 0x1F), (0x0D, 0x1F), (0x01, 0x3F), (0x0D, 0x3F),
            (0x01, 0x7F), (0x0D, 0x7F)] \<and>
   reliable (spi power_on_handle) \<and>
   exchange (spi power_on_handle) = echo_exchange \<and>
   bus (spi (snd (open power_on_handle))) 0x00 = 0xFF \<and>
   bus (spi (snd (open power_on_handle))) 0x0C = 0xFF \<and>
   bus (spi (snd (open power_on_handle))) 0x01 = 0x7F \<and>
   bus (spi (snd (open power_on_handle))) 0x0D = 0x7F"
proof -
  note f = power_on_handle_fields
  have r: "reliable (spi power_on_handle)"
    by (rule reliable_echo_exchange) (rule f(1))
  have o: "open power_on_handle = (Inr (), snd (open power_on_handle))"
    using open_reliable [OF r] by (cases "open power_on_handle") simp
  from open_configures_pins_0_to_14 [of power_on_handle "()" "snd (open power_on_handle)"]
    o r f(1-8)
  show ?thesis
    by simp
qed

end
